theory Spec2Isabelle
  imports Main
begin

section \<open>file-flows: the dispatch layer of \<^verbatim>\<open>FileOps\<close> (src/file_flows/core.py)\<close>

text \<open>
  \<^verbatim>\<open>FileOps\<close> routes every public operation either to the local filesystem (Python's
  \<^verbatim>\<open>pathlib\<close>, \<^verbatim>\<open>shutil\<close>, \<^verbatim>\<open>os.path\<close>) or to an object store, through the methods of
  \<^verbatim>\<open>S3Ops\<close>. The embedding has three layers:
  \<^item> a model of the local filesystem and of the standard-library calls the class makes;
  \<^item> the class \<^verbatim>\<open>S3Ops\<close> (module \<^verbatim>\<open>file_flows.s3\<close>) and the dataframe libraries as
    records of functions, so that every statement about \<^verbatim>\<open>FileOps\<close> holds for whatever
    these collaborators do;
  \<^item> the methods of \<^verbatim>\<open>FileOps\<close>, statement by statement, in a state-and-exception monad.
\<close>

subsection \<open>Errors\<close>

text \<open>
  The exceptions the standard library raises on Linux: the subclasses of \<^verbatim>\<open>OSError\<close> that
  have a name, \<^verbatim>\<open>OSError\<close> with any other error number (36 is \<^verbatim>\<open>ENAMETOOLONG\<close>), the two
  exceptions of \<^verbatim>\<open>shutil\<close>, and the built-in exceptions that are no \<^verbatim>\<open>OSError\<close>. The last
  three are the classes of the specification's error taxonomy, which only the object
  store raises.
\<close>

datatype error =
    FileNotFoundError
  | FileExistsError
  | NotADirectoryError
  | IsADirectoryError
  | PermissionError
  | OSError nat
  | SameFileError
  | SpecialFileError
  | ValueError
  | IndexError
  | NotImplementedError
  | InvalidLocationError
  | NotFoundError
  | BackendError string

text \<open>What \<^verbatim>\<open>except OSError\<close> catches, among the errors of a local call.\<close>

definition is_OSError :: "error \<Rightarrow> bool" where
  "is_OSError e = (e \<noteq> ValueError \<and> e \<noteq> IndexError \<and> e \<noteq> NotImplementedError)"

subsection \<open>The local filesystem\<close>

text \<open>
  A filesystem holds entries under canonical absolute paths (lists of names, the root
  being the empty list): regular files with their bytes, directories, and named pipes.
  The working directory is the root. Two more fields stand for what the entries do not
  say. \<open>dir_size\<close> is the size the filesystem reports for a directory. \<open>faults\<close> lists the
  calls the operating system refuses for a reason of its own (permissions, a read-only
  or full device, a symbolic link that does not resolve), each with the error it raises:
  a statement that holds for every filesystem holds whatever the system refuses.
\<close>

type_synonym path = "string list"

datatype node = File string | Dir | Fifo

datatype syscall = Search | StatCall | MkdirCall | UnlinkCall | OpenRead | OpenWrite | Listdir

record localfs =
  entries :: "(path \<times> node) list"
  faults :: "((syscall \<times> path) \<times> error) list"
  dir_size :: "path \<Rightarrow> nat"

definition lookup :: "localfs \<Rightarrow> path \<Rightarrow> node option" where
  "lookup F p = (if p = [] then Some Dir else map_of (entries F) p)"

definition fault :: "localfs \<Rightarrow> syscall \<Rightarrow> path \<Rightarrow> error option" where
  "fault F k p = map_of (faults F) (k, p)"

text \<open>\<^verbatim>\<open>str.split(sep)\<close> for a one-character separator.\<close>

fun split_on :: "char \<Rightarrow> string \<Rightarrow> string list" where
  "split_on c [] = [[]]"
| "split_on c (x # xs) =
     (if x = c then [] # split_on c xs
      else (case split_on c xs of [] \<Rightarrow> [[x]] | y # ys \<Rightarrow> (x # y) # ys))"

text \<open>
  The components of a path string, as \<^verbatim>\<open>Path(s).parts\<close> has them without the root: empty
  components and \<^verbatim>\<open>.\<close> are dropped, \<^verbatim>\<open>..\<close> is kept.
\<close>

definition parts :: "string \<Rightarrow> path" where
  "parts s = filter (\<lambda>c. c \<noteq> [] \<and> c \<noteq> ''.'') (split_on CHR ''/'' s)"

definition trailing_slash :: "string \<Rightarrow> bool" where
  "trailing_slash s = (s \<noteq> [] \<and> last s = CHR ''/'' \<and> parts s \<noteq> [])"

definition is_absolute :: "string \<Rightarrow> bool" where
  "is_absolute s = (s \<noteq> [] \<and> hd s = CHR ''/'')"

text \<open>
  What a system call is given: the length of the path string, its components, and
  whether it ends in a slash. A call made on a string gets these from the string; a call
  made by \<^verbatim>\<open>pathlib\<close> gets them from \<^verbatim>\<open>str(path)\<close>, which has single slashes, no \<^verbatim>\<open>.\<close>
  and no trailing slash. A \<^verbatim>\<open>Path\<close> is its anchor (absolute or not) and its components.
\<close>

type_synonym arg = "nat \<times> path \<times> bool"

type_synonym ppath = "bool \<times> path"

definition of_str :: "string \<Rightarrow> arg" where
  "of_str s = (length s, parts s, trailing_slash s)"

definition Path :: "string \<Rightarrow> ppath" where
  "Path s = (is_absolute s, parts s)"

definition str_len :: "ppath \<Rightarrow> nat" where
  "str_len pp =
     (case pp of (a, p) \<Rightarrow>
        if p = [] then 1
        else (if a then 1 else 0) + sum_list (map length p) + (length p - 1))"

definition of_path :: "ppath \<Rightarrow> arg" where
  "of_path pp = (str_len pp, snd pp, False)"

definition parent :: "ppath \<Rightarrow> ppath" where
  "parent pp = (fst pp, butlast (snd pp))"

definition child :: "ppath \<Rightarrow> string \<Rightarrow> ppath" where
  "child pp name = (fst pp, snd pp @ [name])"

text \<open>The limits of Linux: 255 bytes for a name, 4096 for a path with its terminator.\<close>

definition name_max :: nat where
  "name_max = 255"

definition path_max :: nat where
  "path_max = 4096"

definition has_nul :: "path \<Rightarrow> bool" where
  "has_nul p = (\<exists>c \<in> set p. CHR 0x00 \<in> set c)"

text \<open>
  Path resolution, as the kernel walks: \<open>cur\<close> is the canonical path of the directory
  reached, and each component is looked up in it, so \<open>cur\<close> must be a directory that may
  be searched; \<^verbatim>\<open>..\<close> leads to the parent. The result is the canonical path the last
  component names, whether or not an entry is there.
\<close>

fun canon_from :: "localfs \<Rightarrow> path \<Rightarrow> path \<Rightarrow> error + path" where
  "canon_from F cur [] = Inr cur"
| "canon_from F cur (c # cs) =
     (case fault F Search cur of
        Some e \<Rightarrow> Inl e
      | None \<Rightarrow>
          (case lookup F cur of
             None \<Rightarrow> Inl FileNotFoundError
           | Some Dir \<Rightarrow>
               if name_max < length c then Inl (OSError 36)
               else canon_from F (if c = ''..'' then butlast cur else cur @ [c]) cs
           | Some _ \<Rightarrow> Inl NotADirectoryError))"

text \<open>
  Python refuses a path with a null byte before any system call (\<^verbatim>\<open>ValueError\<close>); the
  kernel refuses a string of \<^verbatim>\<open>PATH_MAX\<close> bytes or more before it walks.
\<close>

definition resolve :: "localfs \<Rightarrow> arg \<Rightarrow> error + path" where
  "resolve F r =
     (case r of (n, p, _) \<Rightarrow>
        if has_nul p then Inl ValueError
        else if path_max \<le> n then Inl (OSError 36)
        else canon_from F [] p)"

text \<open>\<^verbatim>\<open>stat\<close>: the canonical path and the entry there. A trailing slash demands a directory.\<close>

definition sys_stat :: "localfs \<Rightarrow> arg \<Rightarrow> error + path \<times> node" where
  "sys_stat F r =
     (case resolve F r of
        Inl e \<Rightarrow> Inl e
      | Inr q \<Rightarrow>
          (case fault F StatCall q of
             Some e \<Rightarrow> Inl e
           | None \<Rightarrow>
               (case lookup F q of
                  None \<Rightarrow> Inl FileNotFoundError
                | Some n \<Rightarrow>
                    if snd (snd r) \<and> n \<noteq> Dir then Inl NotADirectoryError
                    else Inr (q, n))))"

text \<open>\<^verbatim>\<open>os.stat(s)\<close>: the empty string names nothing.\<close>

definition os_stat :: "localfs \<Rightarrow> string \<Rightarrow> error + path \<times> node" where
  "os_stat F s = (if s = [] then Inl FileNotFoundError else sys_stat F (of_str s))"

text \<open>
  \<^verbatim>\<open>Path.exists\<close> and \<^verbatim>\<open>Path.is_dir\<close> answer \<^verbatim>\<open>False\<close> for \<^verbatim>\<open>ENOENT\<close>, \<^verbatim>\<open>ENOTDIR\<close> and
  \<^verbatim>\<open>ValueError\<close>, and let any other error of \<^verbatim>\<open>stat\<close> pass.
\<close>

definition ignored :: "error \<Rightarrow> bool" where
  "ignored e = (e = FileNotFoundError \<or> e = NotADirectoryError \<or> e = ValueError)"

definition path_exists :: "localfs \<Rightarrow> ppath \<Rightarrow> error + bool" where
  "path_exists F pp =
     (case sys_stat F (of_path pp) of
        Inl e \<Rightarrow> if ignored e then Inr False else Inl e
      | Inr _ \<Rightarrow> Inr True)"

definition is_dir :: "localfs \<Rightarrow> ppath \<Rightarrow> error + bool" where
  "is_dir F pp =
     (case sys_stat F (of_path pp) of
        Inl e \<Rightarrow> if ignored e then Inr False else Inl e
      | Inr (q, n) \<Rightarrow> Inr (n = Dir))"

text \<open>\<^verbatim>\<open>os.path.isdir(s)\<close> answers \<^verbatim>\<open>False\<close> for every error.\<close>

definition os_path_isdir :: "localfs \<Rightarrow> string \<Rightarrow> bool" where
  "os_path_isdir F s = (case os_stat F s of Inr (q, Dir) \<Rightarrow> True | _ \<Rightarrow> False)"

definition put :: "localfs \<Rightarrow> path \<Rightarrow> node \<Rightarrow> localfs" where
  "put F p n =
     F\<lparr>entries := (if map_of (entries F) p = None then entries F @ [(p, n)]
                    else map (\<lambda>(k, v). if k = p then (k, n) else (k, v)) (entries F))\<rparr>"

definition remove_entry :: "localfs \<Rightarrow> path \<Rightarrow> localfs" where
  "remove_entry F p = F\<lparr>entries := filter (\<lambda>(k, v). k \<noteq> p) (entries F)\<rparr>"


text \<open>
  \<^verbatim>\<open>os.mkdir\<close>: every component but the last must resolve to a directory, and nothing may
  be at the path.
\<close>

definition os_mkdir :: "localfs \<Rightarrow> arg \<Rightarrow> error + localfs" where
  "os_mkdir F r =
     (case resolve F r of
        Inl e \<Rightarrow> Inl e
      | Inr q \<Rightarrow>
          (case fault F MkdirCall q of
             Some e \<Rightarrow> Inl e
           | None \<Rightarrow>
               (case lookup F q of
                  Some _ \<Rightarrow> Inl FileExistsError
                | None \<Rightarrow> Inr (put F q Dir))))"

text \<open>
  \<^verbatim>\<open>Path.mkdir(parents=False, exist_ok=True)\<close>:
  \<^verbatim>\<open>
    try: os.mkdir(self, mode)
    except FileNotFoundError:
        if not parents or self.parent == self: raise
        ...
    except OSError:
        if not exist_ok or not self.is_dir(): raise
  \<close>
  An error that is no \<^verbatim>\<open>OSError\<close> is not caught, and an error of \<^verbatim>\<open>is_dir\<close> replaces the
  one being handled.
\<close>

definition mkdir_exist_ok :: "localfs \<Rightarrow> ppath \<Rightarrow> error + localfs" where
  "mkdir_exist_ok F pp =
     (case os_mkdir F (of_path pp) of
        Inr F' \<Rightarrow> Inr F'
      | Inl e \<Rightarrow>
          if e = FileNotFoundError \<or> \<not> is_OSError e then Inl e
          else (case is_dir F pp of
                  Inl e' \<Rightarrow> Inl e'
                | Inr d \<Rightarrow> if d then Inr F else Inl e))"

text \<open>
  \<^verbatim>\<open>Path.mkdir(parents=True, exist_ok=True)\<close>: on \<^verbatim>\<open>FileNotFoundError\<close> the parent is made
  first, by the same method, and the directory itself after it:
  \<^verbatim>\<open>
        self.parent.mkdir(parents=True, exist_ok=True)
        self.mkdir(mode, parents=False, exist_ok=exist_ok)
  \<close>
\<close>

function path_mkdir :: "localfs \<Rightarrow> ppath \<Rightarrow> error + localfs" where
  "path_mkdir F pp =
     (case os_mkdir F (of_path pp) of
        Inr F' \<Rightarrow> Inr F'
      | Inl e \<Rightarrow>
          if e = FileNotFoundError then
            (if snd pp = [] then Inl e
             else (case path_mkdir F (parent pp) of
                     Inl e' \<Rightarrow> Inl e'
                   | Inr F1 \<Rightarrow> mkdir_exist_ok F1 pp))
          else if \<not> is_OSError e then Inl e
          else (case is_dir F pp of
                  Inl e' \<Rightarrow> Inl e'
                | Inr d \<Rightarrow> if d then Inr F else Inl e))"
  by pat_completeness auto
termination
  by (relation "measure (\<lambda>(F, pp). length (snd pp))") (auto simp: parent_def)

text \<open>
  \<^verbatim>\<open>Path.unlink()\<close>: removes what is at the path, a regular file or a named pipe; a
  directory is refused.
\<close>

definition unlink :: "localfs \<Rightarrow> ppath \<Rightarrow> error + localfs" where
  "unlink F pp =
     (case resolve F (of_path pp) of
        Inl e \<Rightarrow> Inl e
      | Inr q \<Rightarrow>
          (case fault F UnlinkCall q of
             Some e \<Rightarrow> Inl e
           | None \<Rightarrow>
               (case lookup F q of
                  None \<Rightarrow> Inl FileNotFoundError
                | Some Dir \<Rightarrow> Inl IsADirectoryError
                | Some _ \<Rightarrow> Inr (remove_entry F q))))"

text \<open>
  \<^verbatim>\<open>os.path.getsize\<close> is \<^verbatim>\<open>os.stat(file).st_size\<close>: the bytes of a regular file, what the
  filesystem reports for a directory, nothing for a pipe.
\<close>

definition getsize :: "localfs \<Rightarrow> string \<Rightarrow> error + nat" where
  "getsize F s =
     (case os_stat F s of
        Inl e \<Rightarrow> Inl e
      | Inr (q, n) \<Rightarrow>
          (case n of File b \<Rightarrow> Inr (length b) | Dir \<Rightarrow> Inr (dir_size F q) | Fifo \<Rightarrow> Inr 0))"

text \<open>
  \<^verbatim>\<open>shutil.copy(src, dst)\<close>:
  \<^verbatim>\<open>
    if os.path.isdir(dst):
        dst = os.path.join(dst, os.path.basename(src))
    copyfile(src, dst)
    copymode(src, dst)
  \<close>
  and in \<^verbatim>\<open>copyfile\<close>: \<^verbatim>\<open>SameFileError\<close> when both paths are the same file
  (\<^verbatim>\<open>os.path.samefile\<close>, an \<^verbatim>\<open>OSError\<close> of which counts as no); \<^verbatim>\<open>SpecialFileError\<close> when
  either is a named pipe; \<^verbatim>\<open>open(src, 'rb')\<close>; \<^verbatim>\<open>open(dst, 'wb')\<close>, whose
  \<^verbatim>\<open>IsADirectoryError\<close> becomes \<^verbatim>\<open>FileNotFoundError\<close> when \<^verbatim>\<open>dst\<close> does not exist.
\<close>

definition basename :: "string \<Rightarrow> string" where
  "basename s = last (split_on CHR ''/'' s)"

definition join :: "string \<Rightarrow> string \<Rightarrow> string" where
  "join a b = (if a = [] \<or> last a = CHR ''/'' then a @ b else a @ ''/'' @ b)"

definition samefile :: "localfs \<Rightarrow> string \<Rightarrow> string \<Rightarrow> error + bool" where
  "samefile F a b =
     (case os_stat F a of
        Inl e \<Rightarrow> if is_OSError e then Inr False else Inl e
      | Inr (qa, _) \<Rightarrow>
          (case os_stat F b of
             Inl e \<Rightarrow> if is_OSError e then Inr False else Inl e
           | Inr (qb, _) \<Rightarrow> Inr (qa = qb)))"

definition is_fifo :: "localfs \<Rightarrow> string \<Rightarrow> bool" where
  "is_fifo F s = (case os_stat F s of Inr (q, Fifo) \<Rightarrow> True | _ \<Rightarrow> False)"

definition os_path_exists :: "localfs \<Rightarrow> string \<Rightarrow> bool" where
  "os_path_exists F s = (case os_stat F s of Inr _ \<Rightarrow> True | Inl _ \<Rightarrow> False)"

text \<open>\<^verbatim>\<open>open(s, 'rb').read()\<close>. A named pipe is not read.\<close>

definition open_rb :: "localfs \<Rightarrow> string \<Rightarrow> error + string" where
  "open_rb F s =
     (if s = [] then Inl FileNotFoundError
      else (case resolve F (of_str s) of
              Inl e \<Rightarrow> Inl e
            | Inr q \<Rightarrow>
                (case fault F OpenRead q of
                   Some e \<Rightarrow> Inl e
                 | None \<Rightarrow>
                     (case lookup F q of
                        None \<Rightarrow> Inl FileNotFoundError
                      | Some Dir \<Rightarrow> Inl IsADirectoryError
                      | Some Fifo \<Rightarrow> Inl SpecialFileError
                      | Some (File b) \<Rightarrow>
                          if trailing_slash s then Inl NotADirectoryError else Inr b))))"

text \<open>
  \<^verbatim>\<open>open(s, 'wb')\<close> followed by the write: the file is created or truncated. A missing
  name written with a trailing slash is refused by the kernel as a directory.
\<close>

definition write_wb :: "localfs \<Rightarrow> string \<Rightarrow> string \<Rightarrow> error + localfs" where
  "write_wb F s b =
     (if s = [] then Inl FileNotFoundError
      else (case resolve F (of_str s) of
              Inl e \<Rightarrow> Inl e
            | Inr q \<Rightarrow>
                (case fault F OpenWrite q of
                   Some e \<Rightarrow> Inl e
                 | None \<Rightarrow>
                     (case lookup F q of
                        None \<Rightarrow>
                          if trailing_slash s then Inl IsADirectoryError
                          else Inr (put F q (File b))
                      | Some Dir \<Rightarrow> Inl IsADirectoryError
                      | Some Fifo \<Rightarrow> Inl SpecialFileError
                      | Some (File _) \<Rightarrow>
                          if trailing_slash s then Inl NotADirectoryError
                          else Inr (put F q (File b))))))"

definition copyfile :: "localfs \<Rightarrow> string \<Rightarrow> string \<Rightarrow> error + localfs" where
  "copyfile F src dst =
     (case samefile F src dst of
        Inl e \<Rightarrow> Inl e
      | Inr same \<Rightarrow>
          if same then Inl SameFileError
          else if is_fifo F src \<or> is_fifo F dst then Inl SpecialFileError
          else (case open_rb F src of
                  Inl e \<Rightarrow> Inl e
                | Inr b \<Rightarrow>
                    (case write_wb F dst b of
                       Inl e \<Rightarrow>
                         if e = IsADirectoryError \<and> \<not> os_path_exists F dst
                         then Inl FileNotFoundError else Inl e
                     | Inr F' \<Rightarrow> Inr F')))"

definition shutil_copy :: "localfs \<Rightarrow> string \<Rightarrow> string \<Rightarrow> error + localfs" where
  "shutil_copy F src dst =
     copyfile F src (if os_path_isdir F dst then join dst (basename src) else dst)"

text \<open>\<^verbatim>\<open>os.listdir\<close>: the canonical path of the directory and the names in it.\<close>

definition names_in :: "localfs \<Rightarrow> path \<Rightarrow> string list" where
  "names_in F q =
     remdups (map last (filter (\<lambda>p. p \<noteq> [] \<and> butlast p = q) (map fst (entries F))))"

definition listdir :: "localfs \<Rightarrow> arg \<Rightarrow> error + path \<times> string list" where
  "listdir F r =
     (case resolve F r of
        Inl e \<Rightarrow> Inl e
      | Inr q \<Rightarrow>
          (case fault F Listdir q of
             Some e \<Rightarrow> Inl e
           | None \<Rightarrow>
               (case lookup F q of
                  None \<Rightarrow> Inl FileNotFoundError
                | Some Dir \<Rightarrow> Inr (q, names_in F q)
                | Some _ \<Rightarrow> Inl NotADirectoryError)))"

text \<open>\<^verbatim>\<open>list(Path.iterdir())\<close>: the directory's path with each name appended.\<close>

definition iterdir :: "localfs \<Rightarrow> ppath \<Rightarrow> error + ppath list" where
  "iterdir F pp =
     (case listdir F (of_path pp) of
        Inl e \<Rightarrow> Inl e
      | Inr (q, names) \<Rightarrow> Inr (map (child pp) names))"


text \<open>
  \<^verbatim>\<open>Path.glob(pattern)\<close> as in CPython 3.11. The pattern is split into components, with an
  empty component at the end when it ends in a slash. A generator is modelled by the
  paths it yields and the exception that ends it, if any. A component \<^verbatim>\<open>**\<close> stands for
  the directory and every directory below it; a component with one of \<^verbatim>\<open>*?[\<close> is matched
  with \<^verbatim>\<open>fnmatch\<close> against the names in a directory; any other component (\<^verbatim>\<open>..\<close>
  included) is appended to the path, which must then exist. Every selector ends quietly
  on \<^verbatim>\<open>PermissionError\<close>. Matching one name against one component is the parameter \<open>m\<close>,
  so that nothing here depends on \<^verbatim>\<open>fnmatch\<close>'s syntax for character classes.
\<close>

type_synonym 'a gen = "'a list \<times> error option"

text \<open>\<^verbatim>\<open>for x in xs: yield from f(x)\<close>, where \<open>xs\<close> is itself generated.\<close>

fun gen_each :: "('a \<Rightarrow> 'b gen) \<Rightarrow> 'a list \<Rightarrow> 'b gen" where
  "gen_each f [] = ([], None)"
| "gen_each f (x # xs) =
     (case f x of
        (ys, Some e) \<Rightarrow> (ys, Some e)
      | (ys, None) \<Rightarrow> (case gen_each f xs of (zs, r) \<Rightarrow> (ys @ zs, r)))"

definition gen_over :: "('a \<Rightarrow> 'b gen) \<Rightarrow> 'a gen \<Rightarrow> 'b gen" where
  "gen_over f g =
     (case g of (xs, r) \<Rightarrow>
        (case gen_each f xs of
           (ys, Some e) \<Rightarrow> (ys, Some e)
         | (ys, None) \<Rightarrow> (ys, r)))"

text \<open>\<^verbatim>\<open>except PermissionError: return\<close> around a generator's body.\<close>

definition perm_stop :: "'a gen \<Rightarrow> 'a gen" where
  "perm_stop g = (case g of (xs, r) \<Rightarrow> (xs, if r = Some PermissionError then None else r))"

text \<open>\<^verbatim>\<open>if p not in yielded\<close>: the first occurrence of each path is kept.\<close>

definition first_occurrences :: "'a list \<Rightarrow> 'a list" where
  "first_occurrences xs = rev (remdups (rev xs))"

fun contains_dstar :: "string \<Rightarrow> bool" where
  "contains_dstar (x # y # r) = ((x = CHR ''*'' \<and> y = CHR ''*'') \<or> contains_dstar (y # r))"
| "contains_dstar _ = False"

definition is_wildcard_pattern :: "string \<Rightarrow> bool" where
  "is_wildcard_pattern pat = (\<exists>c \<in> set pat. c \<in> set ''*?['')"

text \<open>The names in a directory that are directories themselves (\<^verbatim>\<open>entry.is_dir()\<close>).\<close>

definition entry_is_dir :: "localfs \<Rightarrow> path \<Rightarrow> string \<Rightarrow> bool" where
  "entry_is_dir F q name = (lookup F (q @ [name]) = Some Dir)"

text \<open>
  \<^verbatim>\<open>_iterate_directories\<close>: the directory, then the directories below each of its
  subdirectories. The first argument bounds the depth; a directory at depth \<open>k\<close> needs
  \<open>k\<close> entries, so the number of entries is a bound.
\<close>

fun iterate_directories :: "nat \<Rightarrow> localfs \<Rightarrow> ppath \<Rightarrow> ppath gen" where
  "iterate_directories 0 F d = ([d], None)"
| "iterate_directories (Suc k) F d =
     perm_stop
       (case listdir F (of_path d) of
          Inl e \<Rightarrow> ([d], Some e)
        | Inr (q, names) \<Rightarrow>
            (case gen_each (\<lambda>name. iterate_directories k F (child d name))
                    (filter (entry_is_dir F q) names) of
               (ds, r) \<Rightarrow> (d # ds, r)))"

fun glob_sel :: "(string \<Rightarrow> string \<Rightarrow> bool) \<Rightarrow> localfs \<Rightarrow> ppath \<Rightarrow> string list \<Rightarrow> ppath gen" where
  "glob_sel m F d [] = ([d], None)"
| "glob_sel m F d (pat # ps) =
     perm_stop
       (if pat = ''**'' then
          (case gen_over (\<lambda>d'. glob_sel m F d' ps)
                  (iterate_directories (length (entries F)) F d) of
             (xs, r) \<Rightarrow> (first_occurrences xs, r))
        else if is_wildcard_pattern pat then
          (case listdir F (of_path d) of
             Inl e \<Rightarrow> ([], Some e)
           | Inr (q, names) \<Rightarrow>
               gen_each (\<lambda>name. glob_sel m F (child d name) ps)
                 (filter (\<lambda>name. (ps = [] \<or> entry_is_dir F q name) \<and> m pat name) names))
        else
          (let d' = (if pat = [] then d else child d pat)
           in case (if ps = [] then path_exists F d' else is_dir F d') of
                Inl e \<Rightarrow> ([], Some e)
              | Inr ok \<Rightarrow> if ok then glob_sel m F d' ps else ([], None)))"

definition pattern_parts :: "string \<Rightarrow> string list" where
  "pattern_parts pattern =
     parts pattern @ (if pattern \<noteq> [] \<and> last pattern = CHR ''/'' then [[]] else [])"

definition glob ::
  "(string \<Rightarrow> string \<Rightarrow> bool) \<Rightarrow> localfs \<Rightarrow> ppath \<Rightarrow> string \<Rightarrow> error + ppath list" where
  "glob m F d pattern =
     (if pattern = [] then Inl ValueError
      else if is_absolute pattern then Inl NotImplementedError
      else if pattern_parts pattern = [] then Inl IndexError
      else if \<exists>c \<in> set (pattern_parts pattern). c \<noteq> ''**'' \<and> contains_dstar c
        then Inl ValueError
      else (case is_dir F d of
              Inl e \<Rightarrow> Inl e
            | Inr ok \<Rightarrow>
                if \<not> ok then Inr []
                else (case glob_sel m F d (pattern_parts pattern) of
                        (xs, None) \<Rightarrow> Inr xs
                      | (xs, Some e) \<Rightarrow> Inl e)))"

subsection \<open>The instance, the world and the collaborators\<close>

text \<open>
  \<^verbatim>\<open>S3Ops(self._s3_cfg)\<close> yields a handle: the object's identity and the configuration it
  was built from.
\<close>

type_synonym s3cfg = string

record handle =
  hid :: nat
  hcfg :: "s3cfg option"

text \<open>
  Calls that leave the class: the constructor of \<^verbatim>\<open>S3Ops\<close>, its methods, and the calls into
  the standard library and the dataframe libraries, with their arguments. The list of
  these calls is kept with the state as a record of what an operation did; no operation
  reads it.
\<close>

datatype pyval =
    PNone
  | PBool bool
  | PInt int
  | PStr string
  | PList "string list"
  | PTuple "string list"

type_synonym dtypes = "(string \<times> string) list"

datatype event =
    NewS3Ops "s3cfg option"
  | GetBucket string
  | TransferS3 string string bool
  | Download string string bool
  | Upload string string string
  | S3Delete string bool
  | S3Exists string
  | S3Size string
  | S3List string "string option"
  | ArrowFs
  | S3ReadCsv string pyval "dtypes option" string
  | S3ReadParquet string string
  | Mkdir string
  | ShutilCopy string string
  | Unlink string
  | PathExists string
  | GetSize string
  | Glob string string
  | IterDir string
  | ReadSchema string bool
  | ReadCsv string "dtypes option" bool "string list option"
  | ReadParquet string
  | ToPandas

text \<open>
  The state: the two attributes of the instance (\<^verbatim>\<open>_s3_cfg\<close>, and the slot that
  \<^verbatim>\<open>cached_property\<close> fills in the instance's dictionary), the number of times the
  constructor of \<^verbatim>\<open>S3Ops\<close> has run, the local filesystem, the object store (of any type
  \<open>'r\<close>) and the calls made so far.
\<close>

record 'r world =
  s3_cfg :: "s3cfg option"
  s3_slot :: "handle option"
  built :: nat
  fs :: localfs
  remote :: 'r
  trace :: "event list"

text \<open>A collaborator acts on both stores: a download writes a local file.\<close>

type_synonym ('r, 'a) act = "localfs \<times> 'r \<Rightarrow> (error + 'a) \<times> localfs \<times> 'r"

datatype 'f frame = Polars 'f | Pandas 'f

text \<open>
  The methods of \<^verbatim>\<open>S3Ops\<close> that \<^verbatim>\<open>FileOps\<close> calls. The module \<^verbatim>\<open>file_flows.s3\<close> is not among
  the sources, so the class is a parameter: a record with one field for each method,
  each taking the handle as \<^verbatim>\<open>self\<close>. \<open>client_upload_file\<close> is
  \<^verbatim>\<open>self.s3.client.upload_file\<close>.
\<close>

record ('r, 'f) s3ops =
  is_s3_path :: "handle \<Rightarrow> string \<Rightarrow> bool"
  bucket_and_partition :: "handle \<Rightarrow> string \<Rightarrow> error + string \<times> string"
  get_bucket :: "handle \<Rightarrow> string \<Rightarrow> ('r, unit) act"
  transfer_s3_location :: "handle \<Rightarrow> string \<Rightarrow> string \<Rightarrow> bool \<Rightarrow> ('r, unit) act"
  download_file :: "handle \<Rightarrow> string \<Rightarrow> string \<Rightarrow> bool \<Rightarrow> ('r, unit) act"
  client_upload_file :: "handle \<Rightarrow> string \<Rightarrow> string \<Rightarrow> string \<Rightarrow> ('r, unit) act"
  delete_file :: "handle \<Rightarrow> string \<Rightarrow> bool \<Rightarrow> ('r, unit) act"
  s3_exists :: "handle \<Rightarrow> string \<Rightarrow> ('r, bool) act"
  s3_file_size :: "handle \<Rightarrow> string \<Rightarrow> ('r, nat) act"
  s3_list_files :: "handle \<Rightarrow> string \<Rightarrow> string option \<Rightarrow> ('r, string list) act"
  arrow_fs :: "handle \<Rightarrow> ('r, nat) act"
  s3_df_from_csv ::
    "handle \<Rightarrow> string \<Rightarrow> pyval \<Rightarrow> dtypes option \<Rightarrow> string \<Rightarrow> ('r, 'f frame) act"
  s3_df_from_parquet :: "handle \<Rightarrow> string \<Rightarrow> string \<Rightarrow> ('r, 'f frame) act"

text \<open>
  The libraries: \<^verbatim>\<open>fnmatch\<close> (used by \<^verbatim>\<open>Path.glob\<close>), \<^verbatim>\<open>pyarrow.parquet.read_schema\<close>,
  \<^verbatim>\<open>polars.read_csv\<close> and \<^verbatim>\<open>polars.read_parquet\<close>.
\<close>

record ('r, 'f) libs =
  fnmatch :: "string \<Rightarrow> string \<Rightarrow> bool"
  read_schema :: "string \<Rightarrow> nat option \<Rightarrow> ('r, string list) act"
  read_csv :: "string \<Rightarrow> dtypes option \<Rightarrow> bool \<Rightarrow> string list option \<Rightarrow> ('r, 'f) act"
  read_parquet :: "string \<Rightarrow> ('r, 'f) act"

subsection \<open>State and exceptions\<close>

text \<open>
  A computation returns a value or raises, and in both cases leaves a state: what was
  done before an exception stays done.
\<close>

type_synonym ('r, 'a) M = "'r world \<Rightarrow> (error + 'a) \<times> 'r world"

definition returnM :: "'a \<Rightarrow> ('r, 'a) M" where
  "returnM a w = (Inr a, w)"

definition raiseM :: "error \<Rightarrow> ('r, 'a) M" where
  "raiseM e w = (Inl e, w)"

definition pureM :: "error + 'a \<Rightarrow> ('r, 'a) M" where
  "pureM r w = (r, w)"

definition bindM :: "('r, 'a) M \<Rightarrow> ('a \<Rightarrow> ('r, 'b) M) \<Rightarrow> ('r, 'b) M" where
  "bindM m f w = (case m w of (Inl e, w') \<Rightarrow> (Inl e, w') | (Inr a, w') \<Rightarrow> f a w')"

definition log :: "event \<Rightarrow> ('r, unit) M" where
  "log ev w = (Inr (), w\<lparr>trace := trace w @ [ev]\<rparr>)"

definition lift :: "('r, 'a) act \<Rightarrow> ('r, 'a) M" where
  "lift a w = (case a (fs w, remote w) of (r, F, R) \<Rightarrow> (r, w\<lparr>fs := F, remote := R\<rparr>))"

definition call :: "event \<Rightarrow> ('r, 'a) act \<Rightarrow> ('r, 'a) M" where
  "call ev a = bindM (log ev) (\<lambda>_. lift a)"

text \<open>A local call that changes the filesystem, and one that only reads it.\<close>

definition local_write :: "(localfs \<Rightarrow> error + localfs) \<Rightarrow> ('r, unit) act" where
  "local_write f = (\<lambda>(F, R). case f F of Inl e \<Rightarrow> (Inl e, F, R) | Inr F' \<Rightarrow> (Inr (), F', R))"

definition local_read :: "(localfs \<Rightarrow> error + 'a) \<Rightarrow> ('r, 'a) act" where
  "local_read f = (\<lambda>(F, R). (f F, F, R))"

text \<open>
  \<^verbatim>\<open>try: m  except FileNotFoundError: h\<close>: the handler runs in the state the exception left.
\<close>

definition except_FileNotFoundError :: "('r, 'a) M \<Rightarrow> ('r, 'a) M \<Rightarrow> ('r, 'a) M" where
  "except_FileNotFoundError m h w =
     (case m w of
        (Inl e, w') \<Rightarrow> if e = FileNotFoundError then h w' else (Inl e, w')
      | (Inr a, w') \<Rightarrow> (Inr a, w'))"

subsection \<open>\<^verbatim>\<open>FileOps\<close>\<close>

text \<open>\<^verbatim>\<open>__init__\<close> stores the configuration and builds nothing.\<close>

definition FileOps_init :: "s3cfg option \<Rightarrow> localfs \<Rightarrow> 'r \<Rightarrow> 'r world" where
  "FileOps_init c F R =
     \<lparr>s3_cfg = c, s3_slot = None, built = 0, fs = F, remote = R, trace = []\<rparr>"

text \<open>
  \<^verbatim>\<open>
    @cached_property
    def s3(self) -> S3Ops:
        return S3Ops(self._s3_cfg)
  \<close>
  The first access runs the body and stores the result in the instance; later accesses
  find it there. The constructor of \<^verbatim>\<open>S3Ops\<close> is not among the sources; as in the
  specification, where the handle is created once and reused, it is taken to return an
  object.
\<close>

definition s3 :: "('r, handle) M" where
  "s3 w =
     (case s3_slot w of
        Some h \<Rightarrow> (Inr h, w)
      | None \<Rightarrow>
          (let h = \<lparr>hid = built w, hcfg = s3_cfg w\<rparr>
           in (Inr h, w\<lparr>s3_slot := Some h, built := built w + 1,
                         trace := trace w @ [NewS3Ops (s3_cfg w)]\<rparr>)))"

text \<open>
  \<^verbatim>\<open>
    def create(self, location):
        if self.s3.is_s3_path(location):
            bucket_name, _ = self.s3.bucket_and_partition(location)
            self.s3.get_bucket(bucket_name)
        else:
            Path(location).mkdir(exist_ok=True, parents=True)
  \<close>
\<close>

definition create :: "('r, 'f) s3ops \<Rightarrow> string \<Rightarrow> ('r, unit) M" where
  "create S location =
     bindM s3 (\<lambda>h.
       if is_s3_path S h location then
         bindM s3 (\<lambda>h1. bindM (pureM (bucket_and_partition S h1 location)) (\<lambda>(bucket_name, _).
         bindM s3 (\<lambda>h2. call (GetBucket bucket_name) (get_bucket S h2 bucket_name))))
       else
         call (Mkdir location) (local_write (\<lambda>F. path_mkdir F (Path location))))"

text \<open>
  \<^verbatim>\<open>
    def delete(self, file, if_exists=False):
        if self.s3.is_s3_path(file):
            return self.s3.delete_file(file, if_exists=if_exists)
        try:
            Path(file).unlink()
        except FileNotFoundError:
            if not if_exists:
                raise
  \<close>
\<close>

definition delete :: "('r, 'f) s3ops \<Rightarrow> string \<Rightarrow> bool \<Rightarrow> ('r, unit) M" where
  "delete S file if_exists =
     bindM s3 (\<lambda>h.
       if is_s3_path S h file then
         bindM s3 (\<lambda>h1. call (S3Delete file if_exists) (delete_file S h1 file if_exists))
       else
         except_FileNotFoundError
           (call (Unlink file) (local_write (\<lambda>F. unlink F (Path file))))
           (if \<not> if_exists then raiseM FileNotFoundError else returnM ()))"

text \<open>
  \<^verbatim>\<open>
    def transfer(self, src_path, dst_path, delete_src=False):
        if self.s3.is_s3_path(src_path):
            if self.s3.is_s3_path(dst_path):
                self.s3.transfer_s3_location(
                    src_path=src_path, dst_path=dst_path, delete_src=delete_src)
            else:
                self.s3.download_file(
                    s3_path=src_path, local_path=dst_path, overwrite=True)
        elif self.s3.is_s3_path(dst_path):
            bucket_name, file_path = self.s3.bucket_and_partition(dst_path)
            self.s3.client.upload_file(str(src_path), bucket_name, file_path)
        else:
            shutil.copy(src_path, dst_path)
        if delete_src:
            self.delete(src_path)
  \<close>
\<close>

definition transfer :: "('r, 'f) s3ops \<Rightarrow> string \<Rightarrow> string \<Rightarrow> bool \<Rightarrow> ('r, unit) M" where
  "transfer S src_path dst_path delete_src =
     bindM
       (bindM s3 (\<lambda>h.
          if is_s3_path S h src_path then
            bindM s3 (\<lambda>h1.
              if is_s3_path S h1 dst_path then
                bindM s3 (\<lambda>h2.
                  call (TransferS3 src_path dst_path delete_src)
                    (transfer_s3_location S h2 src_path dst_path delete_src))
              else
                bindM s3 (\<lambda>h2.
                  call (Download src_path dst_path True)
                    (download_file S h2 src_path dst_path True)))
          else
            bindM s3 (\<lambda>h1.
              if is_s3_path S h1 dst_path then
                bindM s3 (\<lambda>h2.
                bindM (pureM (bucket_and_partition S h2 dst_path)) (\<lambda>(bucket_name, file_path).
                bindM s3 (\<lambda>h3.
                  call (Upload src_path bucket_name file_path)
                    (client_upload_file S h3 src_path bucket_name file_path))))
              else
                call (ShutilCopy src_path dst_path)
                  (local_write (\<lambda>F. shutil_copy F src_path dst_path)))))
       (\<lambda>_. if delete_src then delete S src_path False else returnM ())"

text \<open>
  \<^verbatim>\<open>
    def copy(self, src_path, dst_path):
        return self.transfer(src_path, dst_path, delete_src=False)
    def move(self, src_path, dst_path):
        return self.transfer(src_path, dst_path, delete_src=True)
  \<close>
\<close>

definition copy :: "('r, 'f) s3ops \<Rightarrow> string \<Rightarrow> string \<Rightarrow> ('r, unit) M" where
  "copy S src_path dst_path = transfer S src_path dst_path False"

definition move :: "('r, 'f) s3ops \<Rightarrow> string \<Rightarrow> string \<Rightarrow> ('r, unit) M" where
  "move S src_path dst_path = transfer S src_path dst_path True"

text \<open>
  \<^verbatim>\<open>
    def exists(self, file) -> bool:
        if self.s3.is_s3_path(file):
            return self.s3.exists(file)
        return Path(file).exists()
  \<close>
\<close>

definition exists :: "('r, 'f) s3ops \<Rightarrow> string \<Rightarrow> ('r, bool) M" where
  "exists S file =
     bindM s3 (\<lambda>h.
       if is_s3_path S h file then
         bindM s3 (\<lambda>h1. call (S3Exists file) (s3_exists S h1 file))
       else
         call (PathExists file) (local_read (\<lambda>F. path_exists F (Path file))))"

text \<open>
  \<^verbatim>\<open>
    def file_size(self, file) -> int:
        if self.s3.is_s3_path(file):
            return self.s3.file_size(file)
        return os.path.getsize(file)
  \<close>
\<close>

definition file_size :: "('r, 'f) s3ops \<Rightarrow> string \<Rightarrow> ('r, nat) M" where
  "file_size S file =
     bindM s3 (\<lambda>h.
       if is_s3_path S h file then
         bindM s3 (\<lambda>h1. call (S3Size file) (s3_file_size S h1 file))
       else
         call (GetSize file) (local_read (\<lambda>F. getsize F file)))"

text \<open>
  \<^verbatim>\<open>
    def list_files(self, directory, pattern=None):
        if self.s3.is_s3_path(directory):
            return self.s3.list_files(directory, pattern=pattern)
        if pattern:
            return list(Path(directory).glob(pattern))
        return list(Path(directory).iterdir())
  \<close>
  The store answers with strings, the local branch with \<^verbatim>\<open>Path\<close> objects. \<^verbatim>\<open>if pattern:\<close> is
  false for \<^verbatim>\<open>None\<close> and for the empty string.
\<close>

datatype listing = Names "string list" | Paths "ppath list"

definition truthy :: "string option \<Rightarrow> bool" where
  "truthy pattern = (case pattern of None \<Rightarrow> False | Some s \<Rightarrow> s \<noteq> [])"

definition pattern_str :: "string option \<Rightarrow> string" where
  "pattern_str pattern = (case pattern of None \<Rightarrow> [] | Some s \<Rightarrow> s)"

definition list_files ::
  "('r, 'f) s3ops \<Rightarrow> ('r, 'f) libs \<Rightarrow> string \<Rightarrow> string option \<Rightarrow> ('r, listing) M" where
  "list_files S L directory pattern =
     bindM s3 (\<lambda>h.
       if is_s3_path S h directory then
         bindM s3 (\<lambda>h1.
         bindM (call (S3List directory pattern) (s3_list_files S h1 directory pattern)) (\<lambda>xs.
         returnM (Names xs)))
       else if truthy pattern then
         bindM (call (Glob directory (pattern_str pattern))
                  (local_read (\<lambda>F. glob (fnmatch L) F (Path directory) (pattern_str pattern))))
           (\<lambda>ps. returnM (Paths ps))
       else
         bindM (call (IterDir directory) (local_read (\<lambda>F. iterdir F (Path directory))))
           (\<lambda>ps. returnM (Paths ps)))"

text \<open>
  \<^verbatim>\<open>
    def parquet_column_names(self, file):
        return list(parquet.read_schema(
            file,
            filesystem=self.s3.arrow_fs() if self.s3.is_s3_path(file) else None,
        ).names)
  \<close>
\<close>

definition parquet_column_names ::
  "('r, 'f) s3ops \<Rightarrow> ('r, 'f) libs \<Rightarrow> string \<Rightarrow> ('r, string list) M" where
  "parquet_column_names S L file =
     bindM
       (bindM s3 (\<lambda>h.
          if is_s3_path S h file then
            bindM s3 (\<lambda>h1. bindM (call ArrowFs (arrow_fs S h1)) (\<lambda>a. returnM (Some a)))
          else returnM None))
       (\<lambda>filesystem.
          call (ReadSchema file (filesystem \<noteq> None)) (read_schema L file filesystem))"

text \<open>
  \<^verbatim>\<open>
    def df_from_csv(self, path, header, dtypes=None, return_as="pandas"):
        if self.s3.is_s3_path(path):
            return self.s3.df_from_csv(path, header, dtypes, return_as)
        df = pl.read_csv(
            path,
            dtypes=dtypes,
            has_header=header is True,
            columns=header if isinstance(header, (list, tuple)) else None,
        )
        if return_as == "pandas":
            return df.to_pandas()
        return df
  \<close>
  \<^verbatim>\<open>header is True\<close> holds for the object \<^verbatim>\<open>True\<close> alone; \<^verbatim>\<open>1 is True\<close> is false.
\<close>

definition is_True :: "pyval \<Rightarrow> bool" where
  "is_True v = (v = PBool True)"

definition list_or_tuple :: "pyval \<Rightarrow> string list option" where
  "list_or_tuple v = (case v of PList xs \<Rightarrow> Some xs | PTuple xs \<Rightarrow> Some xs | _ \<Rightarrow> None)"

definition as_requested :: "string \<Rightarrow> 'f \<Rightarrow> ('r, 'f frame) M" where
  "as_requested return_as df =
     (if return_as = ''pandas'' then bindM (log ToPandas) (\<lambda>_. returnM (Pandas df))
      else returnM (Polars df))"

definition df_from_csv ::
  "('r, 'f) s3ops \<Rightarrow> ('r, 'f) libs \<Rightarrow> string \<Rightarrow> pyval \<Rightarrow> dtypes option \<Rightarrow> string
     \<Rightarrow> ('r, 'f frame) M" where
  "df_from_csv S L path header dtypes return_as =
     bindM s3 (\<lambda>h.
       if is_s3_path S h path then
         bindM s3 (\<lambda>h1.
           call (S3ReadCsv path header dtypes return_as)
             (s3_df_from_csv S h1 path header dtypes return_as))
       else
         bindM (call (ReadCsv path dtypes (is_True header) (list_or_tuple header))
                  (read_csv L path dtypes (is_True header) (list_or_tuple header))) (\<lambda>df.
         as_requested return_as df))"

text \<open>
  \<^verbatim>\<open>
    def df_from_parquet(self, path, return_as="pandas"):
        if self.s3.is_s3_path(path):
            return self.s3.df_from_parquet(path, return_as)
        df = pl.read_parquet(path)
        if return_as == "pandas":
            return df.to_pandas()
        return df
  \<close>
\<close>

definition df_from_parquet ::
  "('r, 'f) s3ops \<Rightarrow> ('r, 'f) libs \<Rightarrow> string \<Rightarrow> string \<Rightarrow> ('r, 'f frame) M" where
  "df_from_parquet S L path return_as =
     bindM s3 (\<lambda>h.
       if is_s3_path S h path then
         bindM s3 (\<lambda>h1.
           call (S3ReadParquet path return_as) (s3_df_from_parquet S h1 path return_as))
       else
         bindM (call (ReadParquet path) (read_parquet L path)) (\<lambda>df.
         as_requested return_as df))"

subsection \<open>An object store after the specification\<close>

text \<open>
  Modelled from the spec: the class \<^verbatim>\<open>S3Ops\<close> of \<^verbatim>\<open>file_flows/s3.py\<close>, which is not among the
  sources. The specification describes it as the remote-store collaborator: a location is
  remote iff it starts with the scheme \<^verbatim>\<open>s3://\<close>; the remainder splits into bucket and key
  at the first separator, and splitting a local path fails with \<^verbatim>\<open>InvalidLocationError\<close>;
  creation ensures that the bucket exists; deletion suppresses not-found iff asked to;
  size fails with \<^verbatim>\<open>NotFoundError\<close> on a missing object. The specification has the server-side
  transfer transfer and leaves the deletion of the source to \<^verbatim>\<open>delete\<close>, the second step of
  a transfer; so the transfer of this store copies, whatever \<^verbatim>\<open>delete_src\<close> is. This store gives the statements about
  \<^verbatim>\<open>FileOps\<close>, which hold for every \<^verbatim>\<open>S3Ops\<close>, a concrete instance to run on.
\<close>

record store =
  buckets :: "string list"
  objects :: "((string \<times> string) \<times> string) list"

definition spec_is_s3_path :: "handle \<Rightarrow> string \<Rightarrow> bool" where
  "spec_is_s3_path h p = (take 5 p = ''s3://'')"

definition spec_bucket_and_partition :: "handle \<Rightarrow> string \<Rightarrow> error + string \<times> string" where
  "spec_bucket_and_partition h p =
     (if \<not> spec_is_s3_path h p then Inl InvalidLocationError
      else (let rest = drop 5 p
            in Inr (takeWhile (\<lambda>c. c \<noteq> CHR ''/'') rest,
                    drop 1 (dropWhile (\<lambda>c. c \<noteq> CHR ''/'') rest))))"

definition put_object :: "store \<Rightarrow> string \<times> string \<Rightarrow> string \<Rightarrow> store" where
  "put_object R k b = R\<lparr>objects := filter (\<lambda>(k', _). k' \<noteq> k) (objects R) @ [(k, b)]\<rparr>"

definition drop_object :: "store \<Rightarrow> string \<times> string \<Rightarrow> store" where
  "drop_object R k = R\<lparr>objects := filter (\<lambda>(k', _). k' \<noteq> k) (objects R)\<rparr>"

definition spec_get_bucket :: "handle \<Rightarrow> string \<Rightarrow> (store, unit) act" where
  "spec_get_bucket h b =
     (\<lambda>(F, R). (Inr (), F,
        if b \<in> set (buckets R) then R else R\<lparr>buckets := buckets R @ [b]\<rparr>))"

definition spec_transfer_s3_location ::
  "handle \<Rightarrow> string \<Rightarrow> string \<Rightarrow> bool \<Rightarrow> (store, unit) act" where
  "spec_transfer_s3_location h src dst delete_src =
     (\<lambda>(F, R).
        case (spec_bucket_and_partition h src, spec_bucket_and_partition h dst) of
          (Inr ks, Inr kd) \<Rightarrow>
            (case map_of (objects R) ks of
               None \<Rightarrow> (Inl NotFoundError, F, R)
             | Some b \<Rightarrow>
                 if fst kd \<notin> set (buckets R) then (Inl NotFoundError, F, R)
                 else (Inr (), F, put_object R kd b))
        | _ \<Rightarrow> (Inl InvalidLocationError, F, R))"

definition spec_download_file :: "handle \<Rightarrow> string \<Rightarrow> string \<Rightarrow> bool \<Rightarrow> (store, unit) act" where
  "spec_download_file h s3_path local_path overwrite =
     (\<lambda>(F, R).
        case spec_bucket_and_partition h s3_path of
          Inl e \<Rightarrow> (Inl e, F, R)
        | Inr k \<Rightarrow>
            (case map_of (objects R) k of
               None \<Rightarrow> (Inl NotFoundError, F, R)
             | Some b \<Rightarrow>
                 if \<not> overwrite \<and> os_path_exists F local_path
                 then (Inl FileExistsError, F, R)
                 else (case write_wb F local_path b of
                         Inl e \<Rightarrow> (Inl e, F, R)
                       | Inr F' \<Rightarrow> (Inr (), F', R))))"

definition spec_upload_file :: "handle \<Rightarrow> string \<Rightarrow> string \<Rightarrow> string \<Rightarrow> (store, unit) act" where
  "spec_upload_file h filename bucket key =
     (\<lambda>(F, R).
        case open_rb F filename of
          Inl e \<Rightarrow> (Inl e, F, R)
        | Inr b \<Rightarrow>
            if bucket \<notin> set (buckets R) then (Inl NotFoundError, F, R)
            else (Inr (), F, put_object R (bucket, key) b))"

definition spec_delete_file :: "handle \<Rightarrow> string \<Rightarrow> bool \<Rightarrow> (store, unit) act" where
  "spec_delete_file h file if_exists =
     (\<lambda>(F, R).
        case spec_bucket_and_partition h file of
          Inl e \<Rightarrow> (Inl e, F, R)
        | Inr k \<Rightarrow>
            (case map_of (objects R) k of
               None \<Rightarrow> if if_exists then (Inr (), F, R) else (Inl NotFoundError, F, R)
             | Some _ \<Rightarrow> (Inr (), F, drop_object R k)))"

definition spec_exists :: "handle \<Rightarrow> string \<Rightarrow> (store, bool) act" where
  "spec_exists h file =
     (\<lambda>(F, R).
        case spec_bucket_and_partition h file of
          Inl e \<Rightarrow> (Inl e, F, R)
        | Inr k \<Rightarrow> (Inr (map_of (objects R) k \<noteq> None), F, R))"

definition spec_file_size :: "handle \<Rightarrow> string \<Rightarrow> (store, nat) act" where
  "spec_file_size h file =
     (\<lambda>(F, R).
        case spec_bucket_and_partition h file of
          Inl e \<Rightarrow> (Inl e, F, R)
        | Inr k \<Rightarrow>
            (case map_of (objects R) k of
               None \<Rightarrow> (Inl NotFoundError, F, R)
             | Some b \<Rightarrow> (Inr (length b), F, R)))"

text \<open>A matcher for the wildcards \<^verbatim>\<open>*\<close> and \<^verbatim>\<open>?\<close>, the part of \<^verbatim>\<open>fnmatch\<close> without classes.\<close>

fun wild :: "string \<Rightarrow> string \<Rightarrow> bool" where
  "wild [] s = (s = [])"
| "wild (p # ps) [] = (p = CHR ''*'' \<and> wild ps [])"
| "wild (p # ps) (c # cs) =
     (if p = CHR ''*'' then wild ps (c # cs) \<or> wild (p # ps) cs
      else (p = CHR ''?'' \<or> p = c) \<and> wild ps cs)"

definition spec_list_files :: "handle \<Rightarrow> string \<Rightarrow> string option \<Rightarrow> (store, string list) act" where
  "spec_list_files h directory pattern =
     (\<lambda>(F, R).
        case spec_bucket_and_partition h directory of
          Inl e \<Rightarrow> (Inl e, F, R)
        | Inr (b, prefix) \<Rightarrow>
            (Inr (map (\<lambda>((b', k), _). ''s3://'' @ b' @ ''/'' @ k)
                    (filter (\<lambda>((b', k), _). b' = b \<and> take (length prefix) k = prefix \<and>
                                (case pattern of None \<Rightarrow> True | Some pat \<Rightarrow> wild pat k))
                       (objects R))), F, R))"

type_synonym table = "string \<times> bool \<times> string list option"

definition spec_df ::
  "handle \<Rightarrow> string \<Rightarrow> bool \<Rightarrow> string list option \<Rightarrow> string \<Rightarrow> (store, table frame) act" where
  "spec_df h path has_header columns return_as =
     (\<lambda>(F, R).
        case spec_bucket_and_partition h path of
          Inl e \<Rightarrow> (Inl e, F, R)
        | Inr k \<Rightarrow>
            (case map_of (objects R) k of
               None \<Rightarrow> (Inl NotFoundError, F, R)
             | Some b \<Rightarrow>
                 (Inr (if return_as = ''pandas'' then Pandas (b, has_header, columns)
                       else Polars (b, has_header, columns)), F, R)))"

definition spec_s3 :: "(store, table) s3ops" where
  "spec_s3 =
     \<lparr>is_s3_path = spec_is_s3_path,
      bucket_and_partition = spec_bucket_and_partition,
      get_bucket = spec_get_bucket,
      transfer_s3_location = spec_transfer_s3_location,
      download_file = spec_download_file,
      client_upload_file = spec_upload_file,
      delete_file = spec_delete_file,
      s3_exists = spec_exists,
      s3_file_size = spec_file_size,
      s3_list_files = spec_list_files,
      arrow_fs = (\<lambda>h (F, R). (Inr (hid h), F, R)),
      s3_df_from_csv = (\<lambda>h path header dtypes return_as.
         spec_df h path (is_True header) (list_or_tuple header) return_as),
      s3_df_from_parquet = (\<lambda>h path return_as. spec_df h path True None return_as)\<rparr>"

text \<open>
  Libraries to run on: a table is the text of its file together with the two arguments
  that say how to read it (whether the first line is a header, and the columns to keep),
  and the column names of a file are the comma-separated fields of its first line.
\<close>

definition text_libs :: "(store, table) libs" where
  "text_libs =
     \<lparr>fnmatch = wild,
      read_schema = (\<lambda>file filesystem. local_read (\<lambda>F.
         case open_rb F file of
           Inl e \<Rightarrow> Inl e
         | Inr b \<Rightarrow> Inr (split_on CHR '','' (takeWhile (\<lambda>c. c \<noteq> CHR 0x0A) b)))),
      read_csv = (\<lambda>path dtypes has_header columns. local_read (\<lambda>F.
         case open_rb F path of
           Inl e \<Rightarrow> Inl e
         | Inr b \<Rightarrow> Inr (b, has_header, columns))),
      read_parquet = (\<lambda>path. local_read (\<lambda>F.
         case open_rb F path of
           Inl e \<Rightarrow> Inl e
         | Inr b \<Rightarrow> Inr (b, True, None)))\<rparr>"

definition empty_store :: store where
  "empty_store = \<lparr>buckets = [], objects = []\<rparr>"

subsection \<open>Notions used in the statements\<close>

text \<open>
  The handle an access to \<^verbatim>\<open>self.s3\<close> yields in a state, the state that access leaves, and
  the classification of a path as the instance computes it.
\<close>

definition the_handle :: "'r world \<Rightarrow> handle" where
  "the_handle w =
     (case s3_slot w of Some h \<Rightarrow> h | None \<Rightarrow> \<lparr>hid = built w, hcfg = s3_cfg w\<rparr>)"

definition force :: "'r world \<Rightarrow> 'r world" where
  "force w = snd (s3 w)"

definition is_remote :: "('r, 'f) s3ops \<Rightarrow> 'r world \<Rightarrow> string \<Rightarrow> bool" where
  "is_remote S w p = is_s3_path S (the_handle w) p"

text \<open>The calls an operation added to the record, given the states before and after.\<close>

definition new_events :: "'r world \<Rightarrow> 'r world \<Rightarrow> event list" where
  "new_events w w' = drop (length (trace w)) (trace w')"

fun is_new_s3ops :: "event \<Rightarrow> bool" where
  "is_new_s3ops (NewS3Ops _) = True"
| "is_new_s3ops _ = False"

text \<open>The four actions a transfer can be routed to.\<close>

fun is_transfer_action :: "event \<Rightarrow> bool" where
  "is_transfer_action (TransferS3 _ _ _) = True"
| "is_transfer_action (Download _ _ _) = True"
| "is_transfer_action (Upload _ _ _) = True"
| "is_transfer_action (ShutilCopy _ _) = True"
| "is_transfer_action _ = False"

text \<open>The two calls by which \<^verbatim>\<open>delete\<close> removes \<open>p\<close>, in the store or on the disk.\<close>

fun is_delete_call :: "string \<Rightarrow> event \<Rightarrow> bool" where
  "is_delete_call p (S3Delete f _) = (f = p)"
| "is_delete_call p (Unlink f) = (f = p)"
| "is_delete_call p _ = False"

fun is_read_csv :: "event \<Rightarrow> bool" where
  "is_read_csv (ReadCsv _ _ _ _) = True"
| "is_read_csv _ = False"

text \<open>
  The four actions of the specification's dispatch table, each as the computation it is
  once the handle is built, and the step that follows the action: the deletion of the
  source when the action has returned and \<^verbatim>\<open>delete_src\<close> is set. The upload needs the
  bucket and the key of the destination, and raises what \<^verbatim>\<open>bucket_and_partition\<close> raises.
\<close>

definition server_side_transfer ::
  "('r, 'f) s3ops \<Rightarrow> string \<Rightarrow> string \<Rightarrow> bool \<Rightarrow> ('r, unit) M" where
  "server_side_transfer S src dst del w =
     call (TransferS3 src dst del) (transfer_s3_location S (the_handle w) src dst del) w"

definition download :: "('r, 'f) s3ops \<Rightarrow> string \<Rightarrow> string \<Rightarrow> ('r, unit) M" where
  "download S src dst w =
     call (Download src dst True) (download_file S (the_handle w) src dst True) w"

definition upload :: "('r, 'f) s3ops \<Rightarrow> string \<Rightarrow> string \<Rightarrow> ('r, unit) M" where
  "upload S src dst w =
     (case bucket_and_partition S (the_handle w) dst of
        Inl e \<Rightarrow> (Inl e, w)
      | Inr (b, k) \<Rightarrow> call (Upload src b k) (client_upload_file S (the_handle w) src b k) w)"

definition byte_copy :: "string \<Rightarrow> string \<Rightarrow> ('r, unit) M" where
  "byte_copy src dst = call (ShutilCopy src dst) (local_write (\<lambda>F. shutil_copy F src dst))"

definition then_delete ::
  "('r, 'f) s3ops \<Rightarrow> string \<Rightarrow> bool \<Rightarrow> (error + unit) \<times> 'r world \<Rightarrow> (error + unit) \<times> 'r world" where
  "then_delete S src del rw =
     (case rw of
        (Inl e, w1) \<Rightarrow> (Inl e, w1)
      | (Inr u, w1) \<Rightarrow> if del then delete S src False w1 else (Inr (), w1))"

text \<open>
  A filesystem with the given entries in which the system refuses nothing and every
  directory has the size of one block.
\<close>

definition plain_fs :: "(path \<times> node) list \<Rightarrow> localfs" where
  "plain_fs es = \<lparr>entries = es, faults = [], dir_size = (\<lambda>q. 4096)\<rparr>"

text \<open>
  A path the kernel has no objection to by itself: no null byte, no name over the limit,
  a string under the limit; and no \<^verbatim>\<open>..\<close>, so that the path names what its components say.
\<close>

definition ordinary :: "ppath \<Rightarrow> bool" where
  "ordinary pp =
     (\<not> has_nul (snd pp) \<and> list_all (\<lambda>c. length c \<le> name_max \<and> c \<noteq> ''..'') (snd pp) \<and>
      str_len pp < path_max)"

text \<open>The path and its ancestors, the root apart, shortest first.\<close>

definition ancestors_and_self :: "path \<Rightarrow> path list" where
  "ancestors_and_self p = map (\<lambda>n. take (Suc n) p) [0..<length p]"

text \<open>Nothing but directories sits at the path or at one of its ancestors.\<close>

definition unobstructed :: "localfs \<Rightarrow> path \<Rightarrow> bool" where
  "unobstructed F p =
     list_all (\<lambda>q. lookup F q = None \<or> lookup F q = Some Dir) (ancestors_and_self p)"

definition all_directories :: "localfs \<Rightarrow> path \<Rightarrow> bool" where
  "all_directories F p = list_all (\<lambda>q. lookup F q = Some Dir) (ancestors_and_self p)"

text \<open>
  A pattern that is one name or one wildcard component: no separator, not \<^verbatim>\<open>**\<close>, not
  \<^verbatim>\<open>..\<close>, and, where it is a plain name, one the kernel accepts.
\<close>

definition one_level :: "string \<Rightarrow> bool" where
  "one_level pat =
     (pattern_parts pat = [pat] \<and> \<not> contains_dstar pat \<and> pat \<noteq> ''..'' \<and>
      (is_wildcard_pattern pat \<or> (length pat \<le> name_max \<and> CHR 0x00 \<notin> set pat)))"

text \<open>
  A caller's requests to one instance. An exception ends the request that raised it, not
  the instance: the next request finds the state the failed one left.
\<close>

datatype request =
    Create string
  | Transfer string string bool
  | Copy string string
  | Move string string
  | Delete string bool
  | Exists string
  | FileSize string
  | ListFiles string "string option"
  | ParquetColumnNames string
  | DfFromCsv string pyval "dtypes option" string
  | DfFromParquet string string

fun run :: "('r, 'f) s3ops \<Rightarrow> ('r, 'f) libs \<Rightarrow> request \<Rightarrow> 'r world \<Rightarrow> 'r world" where
  "run S L (Create l) w = snd (create S l w)"
| "run S L (Transfer a b d) w = snd (transfer S a b d w)"
| "run S L (Copy a b) w = snd (copy S a b w)"
| "run S L (Move a b) w = snd (move S a b w)"
| "run S L (Delete f i) w = snd (delete S f i w)"
| "run S L (Exists f) w = snd (exists S f w)"
| "run S L (FileSize f) w = snd (file_size S f w)"
| "run S L (ListFiles d p) w = snd (list_files S L d p w)"
| "run S L (ParquetColumnNames f) w = snd (parquet_column_names S L f w)"
| "run S L (DfFromCsv p h t r) w = snd (df_from_csv S L p h t r w)"
| "run S L (DfFromParquet p r) w = snd (df_from_parquet S L p r w)"

definition run_all :: "('r, 'f) s3ops \<Rightarrow> ('r, 'f) libs \<Rightarrow> request list \<Rightarrow> 'r world \<Rightarrow> 'r world" where
  "run_all S L rs w = foldl (\<lambda>w r. run S L r w) w rs"

text \<open>
  Two properties of a computation, for the proofs. \<open>keeps m\<close>: run on an instance whose
  handle is built, \<open>m\<close> leaves the instance as it is and never calls the constructor.
  \<open>forces m\<close>: \<open>m\<close> does what it does after an access to \<^verbatim>\<open>self.s3\<close> and nothing before.
\<close>

definition quiet :: "'r world \<Rightarrow> 'r world \<Rightarrow> bool" where
  "quiet w w' =
     (s3_cfg w' = s3_cfg w \<and> s3_slot w' = s3_slot w \<and> built w' = built w \<and>
      (\<exists>rest. trace w' = trace w @ rest \<and> filter is_new_s3ops rest = []))"

definition keeps :: "('r, 'a) M \<Rightarrow> bool" where
  "keeps m = (\<forall>w. s3_slot w \<noteq> None \<longrightarrow> quiet w (snd (m w)))"

definition forces :: "('r, 'a) M \<Rightarrow> bool" where
  "forces m = (\<forall>w. quiet (force w) (snd (m w)))"

text \<open>
  The first half of \<^verbatim>\<open>transfer\<close>, up to and including the action it is routed to; the
  deletion of the source follows it.
\<close>

definition route :: "('r, 'f) s3ops \<Rightarrow> string \<Rightarrow> string \<Rightarrow> bool \<Rightarrow> ('r, unit) M" where
  "route S src_path dst_path delete_src =
       (bindM s3 (\<lambda>h.
          if is_s3_path S h src_path then
            bindM s3 (\<lambda>h1.
              if is_s3_path S h1 dst_path then
                bindM s3 (\<lambda>h2.
                  call (TransferS3 src_path dst_path delete_src)
                    (transfer_s3_location S h2 src_path dst_path delete_src))
              else
                bindM s3 (\<lambda>h2.
                  call (Download src_path dst_path True)
                    (download_file S h2 src_path dst_path True)))
          else
            bindM s3 (\<lambda>h1.
              if is_s3_path S h1 dst_path then
                bindM s3 (\<lambda>h2.
                bindM (pureM (bucket_and_partition S h2 dst_path)) (\<lambda>(bucket_name, file_path).
                bindM s3 (\<lambda>h3.
                  call (Upload src_path bucket_name file_path)
                    (client_upload_file S h3 src_path bucket_name file_path))))
              else
                call (ShutilCopy src_path dst_path)
                  (local_write (\<lambda>F. shutil_copy F src_path dst_path)))))"


section \<open>Properties\<close>

subsection \<open>Accessing \<^verbatim>\<open>self.s3\<close>\<close>

lemma s3_built: "s3_slot w = Some h \<Longrightarrow> s3 w = (Inr h, w)"
  by (simp add: s3_def)

lemma bind_s3: "bindM s3 f w = f (the_handle w) (force w)"
  by (simp add: bindM_def s3_def the_handle_def force_def Let_def split: option.splits)

lemma s3_slot_force [simp]: "s3_slot (force w) = Some (the_handle w)"
  by (simp add: s3_def the_handle_def force_def Let_def split: option.splits)

lemma the_handle_force [simp]: "the_handle (force w) = the_handle w"
  by (simp add: s3_def the_handle_def force_def Let_def split: option.splits)

lemma force_idle: "s3_slot w \<noteq> None \<Longrightarrow> force w = w"
  by (auto simp: s3_def force_def)

lemma force_force [simp]: "force (force w) = force w"
  by (simp add: force_idle)

lemma fs_force [simp]: "fs (force w) = fs w"
  by (simp add: s3_def force_def Let_def split: option.splits)

lemma remote_force [simp]: "remote (force w) = remote w"
  by (simp add: s3_def force_def Let_def split: option.splits)

lemma s3_cfg_force [simp]: "s3_cfg (force w) = s3_cfg w"
  by (simp add: s3_def force_def Let_def split: option.splits)

lemma trace_force:
  "trace (force w) = trace w @ (if s3_slot w = None then [NewS3Ops (s3_cfg w)] else [])"
  by (simp add: s3_def force_def Let_def split: option.splits)

lemma built_force: "built (force w) = (if s3_slot w = None then built w + 1 else built w)"
  by (simp add: s3_def force_def Let_def split: option.splits)

lemma quiet_refl [simp]: "quiet w w"
  by (simp add: quiet_def)

lemma quiet_trans: "quiet w w1 \<Longrightarrow> quiet w1 w2 \<Longrightarrow> quiet w w2"
  by (auto simp: quiet_def)

lemma quiet_slot: "quiet w w' \<Longrightarrow> s3_slot w' = s3_slot w"
  by (simp add: quiet_def)

lemma keeps_returnM [intro!, simp]: "keeps (returnM a)"
  by (simp add: keeps_def returnM_def)

lemma keeps_raiseM [intro!, simp]: "keeps (raiseM e)"
  by (simp add: keeps_def raiseM_def)

lemma keeps_pureM [intro!, simp]: "keeps (pureM r)"
  by (simp add: keeps_def pureM_def)

lemma keeps_log: "\<not> is_new_s3ops ev \<Longrightarrow> keeps (log ev)"
  by (simp add: keeps_def log_def quiet_def)

lemma keeps_lift [intro!, simp]: "keeps (lift a)"
  by (simp add: keeps_def lift_def quiet_def split: prod.splits)

lemma keeps_bindM [intro!]: "keeps m \<Longrightarrow> (\<And>a. keeps (f a)) \<Longrightarrow> keeps (bindM m f)"
  unfolding keeps_def bindM_def
proof (intro allI impI)
  fix w :: "'a world"
  assume m: "\<forall>w. s3_slot w \<noteq> None \<longrightarrow> quiet w (snd (m w))"
    and f: "\<And>a. \<forall>w. s3_slot w \<noteq> None \<longrightarrow> quiet w (snd (f a w))"
    and w: "s3_slot w \<noteq> None"
  obtain r w1 where mw: "m w = (r, w1)" by (cases "m w")
  from m w mw have q1: "quiet w w1" by force
  show "quiet w (snd (case m w of (Inl e, w') \<Rightarrow> (Inl e, w') | (Inr a, w') \<Rightarrow> f a w'))"
  proof (cases r)
    case (Inl e)
    with mw q1 show ?thesis by simp
  next
    case (Inr a)
    from q1 w have "s3_slot w1 \<noteq> None" by (simp add: quiet_def)
    with f have "quiet w1 (snd (f a w1))" by blast
    with q1 have "quiet w (snd (f a w1))" by (rule quiet_trans)
    with mw Inr show ?thesis by simp
  qed
qed

lemma keeps_call: "\<not> is_new_s3ops ev \<Longrightarrow> keeps (call ev a)"
  unfolding call_def by (intro keeps_bindM keeps_log keeps_lift)

lemma keeps_s3 [intro!, simp]: "keeps s3"
  by (auto simp: keeps_def s3_def)

lemma keeps_if [intro!]: "keeps m1 \<Longrightarrow> keeps m2 \<Longrightarrow> keeps (if c then m1 else m2)"
  by simp

lemma keeps_case_prod [intro!]: "(\<And>a b. keeps (f a b)) \<Longrightarrow> keeps (case p of (a, b) \<Rightarrow> f a b)"
  by (cases p) simp

lemma keeps_except [intro!]:
  "keeps m \<Longrightarrow> keeps h \<Longrightarrow> keeps (except_FileNotFoundError m h)"
  unfolding keeps_def except_FileNotFoundError_def
proof (intro allI impI)
  fix w :: "'a world"
  assume m: "\<forall>w. s3_slot w \<noteq> None \<longrightarrow> quiet w (snd (m w))"
    and h: "\<forall>w. s3_slot w \<noteq> None \<longrightarrow> quiet w (snd (h w))"
    and w: "s3_slot w \<noteq> None"
  obtain r w1 where mw: "m w = (r, w1)" by (cases "m w")
  from m w mw have q1: "quiet w w1" by force
  then have "s3_slot w1 \<noteq> None" using w by (simp add: quiet_def)
  with h have "quiet w1 (snd (h w1))" by blast
  with q1 have "quiet w (snd (h w1))" by (rule quiet_trans)
  with mw q1 show "quiet w (snd (case m w of
       (Inl e, w') \<Rightarrow> if e = FileNotFoundError then h w' else (Inl e, w')
     | (Inr a, w') \<Rightarrow> (Inr a, w')))"
    by (cases r) auto
qed

lemma forces_bind_s3 [intro!]: "(\<And>h. keeps (f h)) \<Longrightarrow> forces (bindM s3 f)"
  by (simp add: forces_def bind_s3 keeps_def)

lemma forces_bindM [intro!]: "forces m \<Longrightarrow> (\<And>a. keeps (f a)) \<Longrightarrow> forces (bindM m f)"
  unfolding forces_def bindM_def
proof (intro allI)
  fix w :: "'a world"
  assume m: "\<forall>w. quiet (force w) (snd (m w))" and f: "\<And>a. keeps (f a)"
  obtain r w1 where mw: "m w = (r, w1)" by (cases "m w")
  from m mw have q1: "quiet (force w) w1" by (metis snd_conv)
  show "quiet (force w) (snd (case m w of (Inl e, w') \<Rightarrow> (Inl e, w') | (Inr a, w') \<Rightarrow> f a w'))"
  proof (cases r)
    case (Inl e)
    with mw q1 show ?thesis by simp
  next
    case (Inr a)
    from q1 have "s3_slot w1 \<noteq> None" by (simp add: quiet_def)
    with f have "quiet w1 (snd (f a w1))" by (simp add: keeps_def)
    with q1 have "quiet (force w) (snd (f a w1))" by (rule quiet_trans)
    with mw Inr show ?thesis by simp
  qed
qed

lemma forces_keeps: "forces m \<Longrightarrow> keeps m"
  unfolding forces_def keeps_def
proof (intro allI impI)
  fix w :: "'a world"
  assume "\<forall>w. quiet (force w) (snd (m w))" and "s3_slot w \<noteq> None"
  then show "quiet w (snd (m w))" using force_idle [of w] by metis
qed

lemmas keeps_events = keeps_call keeps_log

lemma forces_create: "forces (create S l)"
  unfolding create_def by (intro forces_bind_s3 keeps_if keeps_bindM keeps_case_prod keeps_s3 keeps_pureM keeps_call) simp_all

lemma forces_delete: "forces (delete S f i)"
  unfolding delete_def
  by (intro forces_bind_s3 keeps_if keeps_bindM keeps_case_prod keeps_s3 keeps_pureM keeps_call keeps_except keeps_raiseM keeps_returnM) simp_all

lemma forces_transfer: "forces (transfer S a b d)"
  unfolding transfer_def
  by (intro forces_bindM forces_bind_s3 keeps_if keeps_bindM keeps_case_prod keeps_s3 keeps_pureM keeps_call keeps_returnM forces_keeps [OF forces_delete]) simp_all

lemma forces_exists: "forces (exists S f)"
  unfolding exists_def
  by (intro forces_bind_s3 keeps_if keeps_bindM keeps_s3 keeps_call) simp_all

lemma forces_file_size: "forces (file_size S f)"
  unfolding file_size_def
  by (intro forces_bind_s3 keeps_if keeps_bindM keeps_s3 keeps_call) simp_all

lemma forces_list_files: "forces (list_files S L d p)"
  unfolding list_files_def
  by (intro forces_bind_s3 keeps_if keeps_bindM keeps_s3 keeps_call keeps_returnM) simp_all

lemma forces_parquet_column_names: "forces (parquet_column_names S L f)"
  unfolding parquet_column_names_def
  by (intro forces_bindM forces_bind_s3 keeps_if keeps_bindM keeps_s3 keeps_call keeps_returnM) simp_all

lemma keeps_as_requested: "keeps (as_requested r df)"
  unfolding as_requested_def
  by (intro keeps_if keeps_bindM keeps_log keeps_returnM) simp_all

lemma forces_df_from_csv: "forces (df_from_csv S L p h t r)"
  unfolding df_from_csv_def
  by (intro forces_bind_s3 keeps_if keeps_bindM keeps_s3 keeps_call keeps_as_requested) simp_all

lemma forces_df_from_parquet: "forces (df_from_parquet S L p r)"
  unfolding df_from_parquet_def
  by (intro forces_bind_s3 keeps_if keeps_bindM keeps_s3 keeps_call keeps_as_requested) simp_all

lemmas forces_ops = forces_create forces_delete forces_transfer forces_exists forces_file_size
    forces_list_files forces_parquet_column_names forces_df_from_csv forces_df_from_parquet

lemma quiet_run: "quiet (force w) (run S L r w)"
  by (cases r) (simp_all add: copy_def move_def forces_ops [unfolded forces_def, rule_format])

lemma transfer_route:
  "transfer S src dst del = bindM (route S src dst del) (\<lambda>_. if del then delete S src False else returnM ())"
  by (simp add: transfer_def route_def)

lemma run_all_snoc: "run_all S L (rs @ [r]) w = run S L r (run_all S L rs w)"
  by (simp add: run_all_def)

lemma force_init:
  "force (FileOps_init c F R) =
     \<lparr>s3_cfg = c, s3_slot = Some \<lparr>hid = 0, hcfg = c\<rparr>, built = 1, fs = F, remote = R,
      trace = [NewS3Ops c]\<rparr>"
  by (simp add: force_def s3_def FileOps_init_def Let_def)

lemma reachable:
  fixes S :: "('r, 'f) s3ops"
  assumes w0_def: "w0 = FileOps_init c F R"
  shows "s3_cfg (run_all S L rs w0) = c \<and>
         (if rs = [] then s3_slot (run_all S L rs w0) = None \<and> built (run_all S L rs w0) = 0 \<and> trace (run_all S L rs w0) = []
          else s3_slot (run_all S L rs w0) = Some \<lparr>hid = 0, hcfg = c\<rparr> \<and> built (run_all S L rs w0) = 1 \<and>
               (\<exists>rest. trace (run_all S L rs w0) = NewS3Ops c # rest \<and> filter is_new_s3ops rest = []))"
proof (induction rs rule: rev_induct)
  case Nil
  show ?case by (simp add: run_all_def w0_def FileOps_init_def)
next
  case (snoc r rs)
  let ?w = "run_all S L rs w0"
  have q: "quiet (force ?w) (run S L r ?w)" by (rule quiet_run)
  show ?case
  proof (cases "rs = []")
    case True
    then have "?w = w0" by (simp add: run_all_def)
    with q have "quiet (force w0) (run S L r w0)" by simp
    then show ?thesis using True
      by (auto simp: quiet_def run_all_def w0_def force_init)
  next
    case False
    with snoc.IH have "s3_slot ?w \<noteq> None" by simp
    then have "force ?w = ?w" by (rule force_idle)
    with q have "quiet ?w (run S L r ?w)" by simp
    then show ?thesis using False snoc.IH
      by (auto simp: quiet_def run_all_snoc)
  qed
qed

subsection \<open>The handle is built once (C8)\<close>

text \<open>
  C8. On one instance the constructor of \<^verbatim>\<open>S3Ops\<close> runs at most once, at the first
  operation: after any sequence of requests to a new instance the constructor has run
  once (not at all if nothing was requested), the record of calls shows as many
  constructions, the slot holds the handle built first, an access to \<^verbatim>\<open>self.s3\<close> yields
  that handle, and the only other attribute, the configuration, is what \<^verbatim>\<open>__init__\<close>
  stored. This holds for every \<^verbatim>\<open>S3Ops\<close> and whether or not the requests raise.
\<close>

theorem s3_handle_built_once:
  "built (run_all S L rs (FileOps_init c F R)) = (if rs = [] then 0 else 1) \<and>
   length (filter is_new_s3ops (trace (run_all S L rs (FileOps_init c F R)))) =
     built (run_all S L rs (FileOps_init c F R)) \<and>
   s3_slot (run_all S L rs (FileOps_init c F R)) =
     (if rs = [] then None else Some \<lparr>hid = 0, hcfg = c\<rparr>) \<and>
   fst (s3 (run_all S L rs (FileOps_init c F R))) = Inr \<lparr>hid = 0, hcfg = c\<rparr> \<and>
   s3_cfg (run_all S L rs (FileOps_init c F R)) = c"
  using reachable [OF refl, of S L rs c F R]
  by (auto simp: s3_def Let_def split: if_splits)

theorem s3_handle_built_once_witness:
  "built (run_all spec_s3 text_libs
            [Create ''/tmp/out'', Exists ''s3://bucket/a.csv'', FileSize ''/tmp/out'']
            (FileOps_init None (plain_fs []) empty_store)) = 1 \<and>
   s3_slot (run_all spec_s3 text_libs
            [Create ''/tmp/out'', Exists ''s3://bucket/a.csv'', FileSize ''/tmp/out'']
            (FileOps_init None (plain_fs []) empty_store)) = Some \<lparr>hid = 0, hcfg = None\<rparr>"
  using s3_handle_built_once [of spec_s3 text_libs
      "[Create ''/tmp/out'', Exists ''s3://bucket/a.csv'', FileSize ''/tmp/out'']"
      None "plain_fs []" empty_store]
  by simp

subsection \<open>Every operation builds the handle first (C9)\<close>

text \<open>
  C9. Whatever the first request to a new instance is, and whether its paths are local
  or remote, it leaves the handle built, and the construction of \<^verbatim>\<open>S3Ops\<close> is the first
  call it makes, before any call to the filesystem or a library: classification is a
  method of the handle. The configuration may be absent (\<open>c = None\<close>).
\<close>

theorem every_operation_builds_s3:
  "s3_slot (run S L r (FileOps_init c F R)) = Some \<lparr>hid = 0, hcfg = c\<rparr> \<and>
   built (run S L r (FileOps_init c F R)) = 1 \<and>
   (\<exists>rest. trace (run S L r (FileOps_init c F R)) = NewS3Ops c # rest \<and>
            filter is_new_s3ops rest = [])"
  using quiet_run [of "FileOps_init c F R" S L r]
  by (auto simp: quiet_def force_init)

theorem every_operation_builds_s3_witness:
  "built (run spec_s3 text_libs (Exists ''/tmp/a.csv'') (FileOps_init None (plain_fs []) empty_store)) = 1 \<and>
   (\<exists>rest. trace (run spec_s3 text_libs (Exists ''/tmp/a.csv'')
                   (FileOps_init None (plain_fs []) empty_store)) = NewS3Ops None # rest)"
  using every_operation_builds_s3 [of spec_s3 text_libs "Exists ''/tmp/a.csv''" None "plain_fs []"
      empty_store]
  by blast

subsection \<open>Copy and move (C4)\<close>

text \<open>
  C4. \<^verbatim>\<open>copy\<close> is \<^verbatim>\<open>transfer\<close> with \<^verbatim>\<open>delete_src=False\<close> and \<^verbatim>\<open>move\<close> is \<^verbatim>\<open>transfer\<close> with
  \<^verbatim>\<open>delete_src=True\<close>: as functions of the state they are equal, in the value returned
  or exception raised and in the state left.
\<close>

theorem copy_move_are_transfer:
  "copy S src dst = transfer S src dst False \<and> move S src dst = transfer S src dst True"
  by (simp add: copy_def move_def)

theorem copy_move_are_transfer_witness:
  "copy spec_s3 ''/tmp/a.csv'' ''s3://bucket/a.csv'' (FileOps_init None (plain_fs []) empty_store) =
     transfer spec_s3 ''/tmp/a.csv'' ''s3://bucket/a.csv'' False
       (FileOps_init None (plain_fs []) empty_store) \<and>
   move spec_s3 ''/tmp/a.csv'' ''s3://bucket/a.csv'' (FileOps_init None (plain_fs []) empty_store) =
     transfer spec_s3 ''/tmp/a.csv'' ''s3://bucket/a.csv'' True
       (FileOps_init None (plain_fs []) empty_store)"
  using copy_move_are_transfer [of spec_s3 "''/tmp/a.csv''" "''s3://bucket/a.csv''"]
  by simp

subsection \<open>What a call leaves\<close>

lemma trace_call [simp]: "trace (snd (call ev a w)) = trace w @ [ev]"
  by (simp add: call_def bindM_def log_def lift_def split: prod.splits)

lemma s3_slot_call [simp]: "s3_slot (snd (call ev a w)) = s3_slot w"
  by (simp add: call_def bindM_def log_def lift_def split: prod.splits)

lemma built_call [simp]: "built (snd (call ev a w)) = built w"
  by (simp add: call_def bindM_def log_def lift_def split: prod.splits)

lemma s3_cfg_call [simp]: "s3_cfg (snd (call ev a w)) = s3_cfg w"
  by (simp add: call_def bindM_def log_def lift_def split: prod.splits)

lemma the_handle_call [simp]: "the_handle (snd (call ev a w)) = the_handle w"
  by (simp add: the_handle_def split: option.splits)

lemma fst_call: "fst (call ev a w) = fst (a (fs w, remote w))"
  by (simp add: call_def bindM_def log_def lift_def split: prod.splits)

lemma fs_call: "fs (snd (call ev a w)) = fst (snd (a (fs w, remote w)))"
  by (simp add: call_def bindM_def log_def lift_def split: prod.splits)

lemma remote_call: "remote (snd (call ev a w)) = snd (snd (a (fs w, remote w)))"
  by (simp add: call_def bindM_def log_def lift_def split: prod.splits)


subsection \<open>The routes of \<^verbatim>\<open>transfer\<close> and \<^verbatim>\<open>delete\<close>\<close>

lemma bind_pureM:
  "bindM (pureM r) f w = (case r of Inl e \<Rightarrow> (Inl e, w) | Inr a \<Rightarrow> f a w)"
  by (simp add: bindM_def pureM_def split: sum.splits)

lemma route_remote_remote:
  "is_remote S w src \<Longrightarrow> is_remote S w dst \<Longrightarrow>
   route S src dst del w =
     call (TransferS3 src dst del) (transfer_s3_location S (the_handle w) src dst del) (force w)"
  by (simp add: route_def bind_s3 is_remote_def)

lemma route_remote_local:
  "is_remote S w src \<Longrightarrow> \<not> is_remote S w dst \<Longrightarrow>
   route S src dst del w =
     call (Download src dst True) (download_file S (the_handle w) src dst True) (force w)"
  by (simp add: route_def bind_s3 is_remote_def)

lemma route_local_remote:
  "\<not> is_remote S w src \<Longrightarrow> is_remote S w dst \<Longrightarrow>
   route S src dst del w =
     (case bucket_and_partition S (the_handle w) dst of
        Inl e \<Rightarrow> (Inl e, force w)
      | Inr (b, k) \<Rightarrow>
          call (Upload src b k) (client_upload_file S (the_handle w) src b k) (force w))"
  by (simp add: route_def bind_s3 is_remote_def bind_pureM split: sum.splits prod.splits)

lemma route_local_local:
  "\<not> is_remote S w src \<Longrightarrow> \<not> is_remote S w dst \<Longrightarrow>
   route S src dst del w =
     call (ShutilCopy src dst) (local_write (\<lambda>F. shutil_copy F src dst)) (force w)"
  by (simp add: route_def bind_s3 is_remote_def)

lemma delete_remote:
  "is_remote S w f \<Longrightarrow>
   delete S f i w = call (S3Delete f i) (delete_file S (the_handle w) f i) (force w)"
  by (simp add: delete_def bind_s3 is_remote_def)

lemma delete_local:
  "\<not> is_remote S w f \<Longrightarrow>
   delete S f i w =
     except_FileNotFoundError (call (Unlink f) (local_write (\<lambda>F. unlink F (Path f))))
       (if \<not> i then raiseM FileNotFoundError else returnM ()) (force w)"
  by (simp add: delete_def bind_s3 is_remote_def)

lemma trace_delete:
  "trace (snd (delete S f i w)) =
     trace (force w) @ [if is_remote S w f then S3Delete f i else Unlink f]"
proof (cases "is_remote S w f")
  case True
  then show ?thesis by (simp add: delete_remote)
next
  case False
  obtain r w1 where c: "call (Unlink f) (local_write (\<lambda>F. unlink F (Path f))) (force w) = (r, w1)"
    by (cases "call (Unlink f) (local_write (\<lambda>F. unlink F (Path f))) (force w :: 'a world)")
  have "trace w1 = trace (force w) @ [Unlink f]"
    using trace_call [of "Unlink f" "local_write (\<lambda>F. unlink F (Path f))" "force w"] c by simp
  with False c show ?thesis
    by (simp add: delete_local except_FileNotFoundError_def raiseM_def returnM_def split: sum.splits)
qed

lemma transfer_cases:
  "transfer S src dst del w =
     (case route S src dst del w of
        (Inl e, w1) \<Rightarrow> (Inl e, w1)
      | (Inr _, w1) \<Rightarrow> if del then delete S src False w1 else (Inr (), w1))"
  by (simp add: transfer_route bindM_def returnM_def split: prod.splits sum.splits)

lemma quiet_route: "quiet (force w) (snd (route S src dst del w))"
proof -
  have "forces (route S src dst del)"
    unfolding route_def
    by (intro forces_bind_s3 keeps_if keeps_bindM keeps_case_prod keeps_s3 keeps_pureM keeps_call)
      simp_all
  then show ?thesis by (simp add: forces_def)
qed

lemma route_leaves_handle:
  "s3_slot (snd (route S src dst del w)) = Some (the_handle w)"
  using quiet_route [of w S src dst del] by (simp add: quiet_def)

lemma trace_route:
  "trace (snd (route S src dst del w)) =
     trace (force w) @
       (if is_remote S w src then
          (if is_remote S w dst then [TransferS3 src dst del] else [Download src dst True])
        else if is_remote S w dst then
          (case bucket_and_partition S (the_handle w) dst of
             Inl e \<Rightarrow> []
           | Inr (b, k) \<Rightarrow> [Upload src b k])
        else [ShutilCopy src dst])"
  by (simp add: route_remote_remote route_remote_local route_local_remote route_local_local
      split: sum.splits prod.splits)

text \<open>What the deletion step of a transfer adds to the record.\<close>

lemma trace_transfer:
  "trace (snd (transfer S src dst del w)) =
     trace (snd (route S src dst del w)) @
       (if del \<and> \<not> isl (fst (route S src dst del w))
        then [if is_remote S w src then S3Delete src False else Unlink src] else [])"
proof -
  obtain r w1 where rt: "route S src dst del w = (r, w1)"
    by (cases "route S src dst del w")
  have slot: "s3_slot w1 = Some (the_handle w)"
    using route_leaves_handle [of S src dst del w] rt by simp
  then have idle: "force w1 = w1" by (simp add: force_idle)
  from slot have h: "the_handle w1 = the_handle w" by (simp add: the_handle_def)
  show ?thesis
  proof (cases r)
    case (Inl e)
    with rt show ?thesis by (simp add: transfer_cases)
  next
    case (Inr u)
    with rt idle h show ?thesis
      by (simp add: transfer_cases trace_delete is_remote_def)
  qed
qed

lemma new_events_append: "trace w' = trace w @ es \<Longrightarrow> new_events w w' = es"
  by (simp add: new_events_def)

lemma transfer_actions:
  "filter is_transfer_action (new_events w (snd (transfer S src dst del w))) =
       (if is_remote S w src then
          (if is_remote S w dst then [TransferS3 src dst del] else [Download src dst True])
        else if is_remote S w dst then
          (case bucket_and_partition S (the_handle w) dst of
             Inl e \<Rightarrow> []
           | Inr (b, k) \<Rightarrow> [Upload src b k])
        else [ShutilCopy src dst])"
  by (simp add: new_events_def trace_transfer trace_route trace_force split: sum.splits prod.splits)

subsection \<open>Dispatch of \<^verbatim>\<open>transfer\<close> (C1)\<close>

lemma is_remote_spec: "is_remote spec_s3 w p = (take 5 p = ''s3://'')"
  by (simp add: is_remote_def spec_s3_def spec_is_s3_path_def)

lemma bucket_and_partition_spec:
  "bucket_and_partition spec_s3 h p = spec_bucket_and_partition h p"
  by (simp add: spec_s3_def)

lemma route_is_action:
  "route S src dst del w =
     (if is_remote S w src
      then (if is_remote S w dst then server_side_transfer S src dst del else download S src dst)
      else (if is_remote S w dst then upload S src dst else byte_copy src dst)) (force w)"
  by (simp add: route_remote_remote route_remote_local route_local_remote route_local_local
      server_side_transfer_def download_def upload_def byte_copy_def
      split: sum.splits prod.splits)

lemma transfer_is_action_then_delete:
  "transfer S src dst del w = then_delete S src del (route S src dst del w)"
  by (simp add: transfer_cases then_delete_def split: prod.splits sum.splits)

text \<open>
  C1. For every pair of paths, \<^verbatim>\<open>transfer\<close> classifies the source and the destination each
  on its own, builds the handle, and then is one of the four actions, followed by the
  deletion step: the server-side transfer when both paths are remote, the download for a
  remote source and a local destination, the upload for a local source and a remote
  destination, \<^verbatim>\<open>shutil.copy\<close> when both are local. The equations are between whole runs:
  the value returned or the exception raised, both stores, and the calls on record. They
  hold for every \<^verbatim>\<open>S3Ops\<close>.
\<close>

theorem transfer_dispatch:
  "(is_remote S w src \<and> is_remote S w dst \<longrightarrow>
      transfer S src dst del w =
        then_delete S src del (server_side_transfer S src dst del (force w))) \<and>
   (is_remote S w src \<and> \<not> is_remote S w dst \<longrightarrow>
      transfer S src dst del w = then_delete S src del (download S src dst (force w))) \<and>
   (\<not> is_remote S w src \<and> is_remote S w dst \<longrightarrow>
      transfer S src dst del w = then_delete S src del (upload S src dst (force w))) \<and>
   (\<not> is_remote S w src \<and> \<not> is_remote S w dst \<longrightarrow>
      transfer S src dst del w = then_delete S src del (byte_copy src dst (force w)))"
  by (simp add: transfer_is_action_then_delete route_is_action)

theorem transfer_dispatch_witness:
  "fst (transfer spec_s3 ''s3://bucket/a.csv'' ''s3://bucket/b.csv'' False
         (FileOps_init None (plain_fs [([''tmp''], Dir), ([''tmp'', ''a.csv''], File ''x,y'')])
            \<lparr>buckets = [''bucket''], objects = [((''bucket'', ''a.csv''), ''1,2'')]\<rparr>)) = Inr () \<and>
   objects (remote (snd (transfer spec_s3 ''s3://bucket/a.csv'' ''s3://bucket/b.csv'' False
         (FileOps_init None (plain_fs [([''tmp''], Dir), ([''tmp'', ''a.csv''], File ''x,y'')])
            \<lparr>buckets = [''bucket''], objects = [((''bucket'', ''a.csv''), ''1,2'')]\<rparr>)))) =
     [((''bucket'', ''a.csv''), ''1,2''), ((''bucket'', ''b.csv''), ''1,2'')] \<and>
   entries (fs (snd (transfer spec_s3 ''s3://bucket/a.csv'' ''/tmp/b.csv'' False
         (FileOps_init None (plain_fs [([''tmp''], Dir), ([''tmp'', ''a.csv''], File ''x,y'')])
            \<lparr>buckets = [''bucket''], objects = [((''bucket'', ''a.csv''), ''1,2'')]\<rparr>)))) =
     [([''tmp''], Dir), ([''tmp'', ''a.csv''], File ''x,y''), ([''tmp'', ''b.csv''], File ''1,2'')] \<and>
   objects (remote (snd (transfer spec_s3 ''/tmp/a.csv'' ''s3://bucket/c.csv'' False
         (FileOps_init None (plain_fs [([''tmp''], Dir), ([''tmp'', ''a.csv''], File ''x,y'')])
            \<lparr>buckets = [''bucket''], objects = [((''bucket'', ''a.csv''), ''1,2'')]\<rparr>)))) =
     [((''bucket'', ''a.csv''), ''1,2''), ((''bucket'', ''c.csv''), ''x,y'')] \<and>
   entries (fs (snd (transfer spec_s3 ''/tmp/a.csv'' ''/tmp/b.csv'' False
         (FileOps_init None (plain_fs [([''tmp''], Dir), ([''tmp'', ''a.csv''], File ''x,y'')])
            \<lparr>buckets = [''bucket''], objects = [((''bucket'', ''a.csv''), ''1,2'')]\<rparr>)))) =
     [([''tmp''], Dir), ([''tmp'', ''a.csv''], File ''x,y''), ([''tmp'', ''b.csv''], File ''x,y'')]"
proof -
  let ?w = "FileOps_init None (plain_fs [([''tmp''], Dir), ([''tmp'', ''a.csv''], File ''x,y'')])
              \<lparr>buckets = [''bucket''], objects = [((''bucket'', ''a.csv''), ''1,2'')]\<rparr>"
  have e1: "transfer spec_s3 ''s3://bucket/a.csv'' ''s3://bucket/b.csv'' False ?w =
      then_delete spec_s3 ''s3://bucket/a.csv'' False
        (server_side_transfer spec_s3 ''s3://bucket/a.csv'' ''s3://bucket/b.csv'' False (force ?w))"
    using transfer_dispatch [of spec_s3 ?w "''s3://bucket/a.csv''" "''s3://bucket/b.csv''" False]
    by (simp add: is_remote_spec)
  have e2: "transfer spec_s3 ''s3://bucket/a.csv'' ''/tmp/b.csv'' False ?w =
      then_delete spec_s3 ''s3://bucket/a.csv'' False
        (download spec_s3 ''s3://bucket/a.csv'' ''/tmp/b.csv'' (force ?w))"
    using transfer_dispatch [of spec_s3 ?w "''s3://bucket/a.csv''" "''/tmp/b.csv''" False]
    by (simp add: is_remote_spec)
  have e3: "transfer spec_s3 ''/tmp/a.csv'' ''s3://bucket/c.csv'' False ?w =
      then_delete spec_s3 ''/tmp/a.csv'' False
        (upload spec_s3 ''/tmp/a.csv'' ''s3://bucket/c.csv'' (force ?w))"
    using transfer_dispatch [of spec_s3 ?w "''/tmp/a.csv''" "''s3://bucket/c.csv''" False]
    by (simp add: is_remote_spec)
  have e4: "transfer spec_s3 ''/tmp/a.csv'' ''/tmp/b.csv'' False ?w =
      then_delete spec_s3 ''/tmp/a.csv'' False (byte_copy ''/tmp/a.csv'' ''/tmp/b.csv'' (force ?w))"
    using transfer_dispatch [of spec_s3 ?w "''/tmp/a.csv''" "''/tmp/b.csv''" False]
    by (simp add: is_remote_spec)
  have v1: "fst (then_delete spec_s3 ''s3://bucket/a.csv'' False
        (server_side_transfer spec_s3 ''s3://bucket/a.csv'' ''s3://bucket/b.csv'' False (force ?w)))
      = Inr ()" by code_simp
  have v1': "objects (remote (snd (then_delete spec_s3 ''s3://bucket/a.csv'' False
        (server_side_transfer spec_s3 ''s3://bucket/a.csv'' ''s3://bucket/b.csv'' False (force ?w)))))
      = [((''bucket'', ''a.csv''), ''1,2''), ((''bucket'', ''b.csv''), ''1,2'')]" by code_simp
  have v2: "entries (fs (snd (then_delete spec_s3 ''s3://bucket/a.csv'' False
        (download spec_s3 ''s3://bucket/a.csv'' ''/tmp/b.csv'' (force ?w))))) =
      [([''tmp''], Dir), ([''tmp'', ''a.csv''], File ''x,y''), ([''tmp'', ''b.csv''], File ''1,2'')]"
    by code_simp
  have v3: "objects (remote (snd (then_delete spec_s3 ''/tmp/a.csv'' False
        (upload spec_s3 ''/tmp/a.csv'' ''s3://bucket/c.csv'' (force ?w))))) =
      [((''bucket'', ''a.csv''), ''1,2''), ((''bucket'', ''c.csv''), ''x,y'')]" by code_simp
  have v4: "entries (fs (snd (then_delete spec_s3 ''/tmp/a.csv'' False
        (byte_copy ''/tmp/a.csv'' ''/tmp/b.csv'' (force ?w))))) =
      [([''tmp''], Dir), ([''tmp'', ''a.csv''], File ''x,y''), ([''tmp'', ''b.csv''], File ''x,y'')]"
    by code_simp
  from v1 v1' v2 v3 v4 show ?thesis
    unfolding e1 e2 e3 e4 by blast
qed

subsection \<open>The header argument of \<^verbatim>\<open>df_from_csv\<close> (C10)\<close>

lemma df_from_csv_local:
  "\<not> is_remote S w p \<Longrightarrow>
   df_from_csv S L p h t r w =
     bindM (call (ReadCsv p t (is_True h) (list_or_tuple h))
              (read_csv L p t (is_True h) (list_or_tuple h)))
       (as_requested r) (force w)"
  by (simp add: df_from_csv_def bind_s3 is_remote_def)

lemma fst_as_requested:
  "fst (as_requested r df w) = Inr (if r = ''pandas'' then Pandas df else Polars df)"
  by (simp add: as_requested_def bindM_def log_def returnM_def)

lemma fst_bind_as_requested:
  "fst (bindM m (as_requested r) w) =
     (case fst (m w) of
        Inl e \<Rightarrow> Inl e
      | Inr df \<Rightarrow> Inr (if r = ''pandas'' then Pandas df else Polars df))"
  by (simp add: bindM_def fst_as_requested split: prod.splits sum.splits)

text \<open>
  C10. For a local path \<^verbatim>\<open>df_from_csv\<close> is, once the handle is built, one call of
  \<^verbatim>\<open>polars.read_csv\<close> followed by the conversion asked for, and the call is made with
  \<^verbatim>\<open>has_header\<close> true iff the header argument is the object \<^verbatim>\<open>True\<close>, and with \<^verbatim>\<open>columns\<close>
  the header argument when that is a list or a tuple and \<^verbatim>\<open>None\<close> otherwise. So a list or
  tuple of names, and any other value such as \<^verbatim>\<open>1\<close>, makes the file be read as
  headerless. The table returned is the one the library returns for these arguments,
  whatever the library is.
\<close>

theorem df_from_csv_header:
  "\<not> is_remote S w path \<longrightarrow>
     df_from_csv S L path header dtypes return_as w =
       bindM (call (ReadCsv path dtypes (header = PBool True)
                      (case header of PList xs \<Rightarrow> Some xs | PTuple xs \<Rightarrow> Some xs | _ \<Rightarrow> None))
                (read_csv L path dtypes (header = PBool True)
                   (case header of PList xs \<Rightarrow> Some xs | PTuple xs \<Rightarrow> Some xs | _ \<Rightarrow> None)))
         (as_requested return_as) (force w) \<and>
     fst (df_from_csv S L path header dtypes return_as w) =
       (case fst (read_csv L path dtypes (header = PBool True)
                    (case header of PList xs \<Rightarrow> Some xs | PTuple xs \<Rightarrow> Some xs | _ \<Rightarrow> None)
                    (fs w, remote w)) of
          Inl e \<Rightarrow> Inl e
        | Inr df \<Rightarrow> Inr (if return_as = ''pandas'' then Pandas df else Polars df))"
  by (simp add: df_from_csv_local fst_bind_as_requested fst_call is_True_def list_or_tuple_def)

theorem df_from_csv_header_witness:
  "fst (df_from_csv spec_s3 text_libs ''/tmp/a.csv'' (PBool True) None ''pandas''
         (FileOps_init None (plain_fs [([''tmp''], Dir), ([''tmp'', ''a.csv''], File ''x,y'')])
            empty_store)) = Inr (Pandas (''x,y'', True, None)) \<and>
   fst (df_from_csv spec_s3 text_libs ''/tmp/a.csv'' (PList [''x'', ''y'']) None ''pandas''
         (FileOps_init None (plain_fs [([''tmp''], Dir), ([''tmp'', ''a.csv''], File ''x,y'')])
            empty_store)) = Inr (Pandas (''x,y'', False, Some [''x'', ''y''])) \<and>
   fst (df_from_csv spec_s3 text_libs ''/tmp/a.csv'' (PInt 1) None ''polars''
         (FileOps_init None (plain_fs [([''tmp''], Dir), ([''tmp'', ''a.csv''], File ''x,y'')])
            empty_store)) = Inr (Polars (''x,y'', False, None))"
proof -
  let ?F = "plain_fs [([''tmp''], Dir), ([''tmp'', ''a.csv''], File ''x,y'')]"
  let ?w = "FileOps_init None ?F empty_store"
  have st: "fs ?w = ?F" "remote ?w = empty_store" by (simp_all add: FileOps_init_def)
  have r1: "fst (read_csv text_libs ''/tmp/a.csv'' None True None (?F, empty_store)) =
              Inr (''x,y'', True, None)" by code_simp
  have r2: "fst (read_csv text_libs ''/tmp/a.csv'' None False (Some [''x'', ''y''])
              (?F, empty_store)) = Inr (''x,y'', False, Some [''x'', ''y''])" by code_simp
  have r3: "fst (read_csv text_libs ''/tmp/a.csv'' None False None (?F, empty_store)) =
              Inr (''x,y'', False, None)" by code_simp
  have loc: "\<not> is_remote spec_s3 ?w ''/tmp/a.csv''" by (simp add: is_remote_spec)
  note hdr = df_from_csv_header [of spec_s3 ?w "''/tmp/a.csv''" text_libs _ None, THEN mp,
      OF loc, THEN conjunct2]
  from r1 st hdr [of "PBool True" "''pandas''"]
  have 1: "fst (df_from_csv spec_s3 text_libs ''/tmp/a.csv'' (PBool True) None ''pandas'' ?w) =
      Inr (Pandas (''x,y'', True, None))"
    by simp
  from r2 st hdr [of "PList [''x'', ''y'']" "''pandas''"]
  have 2: "fst (df_from_csv spec_s3 text_libs ''/tmp/a.csv'' (PList [''x'', ''y'']) None
      ''pandas'' ?w) = Inr (Pandas (''x,y'', False, Some [''x'', ''y'']))"
    by simp
  from r3 st hdr [of "PInt 1" "''polars''"]
  have 3: "fst (df_from_csv spec_s3 text_libs ''/tmp/a.csv'' (PInt 1) None ''polars'' ?w) =
      Inr (Polars (''x,y'', False, None))"
    by simp
  from 1 2 3 show ?thesis by blast
qed

subsection \<open>Results of the local branches\<close>





subsection \<open>\<^verbatim>\<open>delete\<close> with and without \<^verbatim>\<open>if_exists\<close> (C3)\<close>




subsection \<open>\<^verbatim>\<open>file_size\<close> (C7)\<close>










end
